theory Spec2Isabelle
  imports Complex_Main "HOL-Library.Word"
begin

section \<open>Multi-worker training script: the glue code around the framework\<close>

text \<open>
  The script \<^verbatim>\<open>comet-tensorflow-distributed-multiworker-mirrored-strategy.py\<close> parses
  three flags, writes the cluster descriptor into \<^verbatim>\<open>os.environ["TF_CONFIG"]\<close>, opens a
  tracking session on worker 0 and runs a training loop of \<^verbatim>\<open>EPOCHS\<close> epochs.
  Everything the script itself computes is modelled here as it is written; the
  calls into TensorFlow, Keras and comet_ml are operations of a record \<open>api\<close> over a
  state \<open>'s\<close> that the script never inspects, each of which may raise.
\<close>

subsection \<open>Python values the script handles\<close>

datatype error = AttributeError | ZeroDivisionError | External string

text \<open>A float32 value: the rational it denotes, or one of the three special values.\<close>

datatype f32 = Finite rat | PosInf | NegInf | NaN

datatype pyval = PyNone | PyInt int | PyStr string

text \<open>\<^verbatim>\<open>total_loss\<close> is the Python int 0 until the first \<^verbatim>\<open>+=\<close> makes it a tensor.\<close>

datatype total = IntZero | TensorTotal f32

subsection \<open>\<^verbatim>\<open>str.split(sep)\<close>, \<^verbatim>\<open>str(int)\<close> and \<^verbatim>\<open>json.dumps\<close>\<close>

text \<open>
  \<^verbatim>\<open>s.split(",")\<close> with an explicit separator: the pieces between the separators,
  empty pieces kept, so that the empty string gives one empty piece.
\<close>

fun str_split :: "string \<Rightarrow> char \<Rightarrow> string list" where
  "str_split [] sep = [[]]"
| "str_split (c # cs) sep =
     (if c = sep then [] # str_split cs sep
      else (case str_split cs sep of
              [] \<Rightarrow> [[c]]
            | h # t \<Rightarrow> (c # h) # t))"

fun str_join :: "string \<Rightarrow> string list \<Rightarrow> string" where
  "str_join sep [] = []"
| "str_join sep [x] = x"
| "str_join sep (x # y # ys) = x @ sep @ str_join sep (y # ys)"

definition digit_char :: "nat \<Rightarrow> char" where
  "digit_char d = char_of (48 + d)"

fun str_nat :: "nat \<Rightarrow> string" where
  "str_nat n = (if n < 10 then [digit_char n] else str_nat (n div 10) @ [digit_char (n mod 10)])"

definition str_int :: "int \<Rightarrow> string" where
  "str_int i = (if i < 0 then CHR ''-'' # str_nat (nat (- i)) else str_nat (nat i))"

text \<open>
  The values \<^verbatim>\<open>json.dumps\<close> is given by the script: dictionaries with string keys (in
  insertion order), lists, strings, ints and \<^verbatim>\<open>None\<close>.
\<close>

datatype json = JNull | JInt int | JStr string | JList "json list" | JObj "(string \<times> json) list"

definition hex_char :: "nat \<Rightarrow> char" where
  "hex_char d = (if d < 10 then char_of (48 + d) else char_of (87 + d))"

text \<open>
  \<^verbatim>\<open>json.dumps\<close> with its defaults (\<^verbatim>\<open>ensure_ascii=True\<close>, separators \<^verbatim>\<open>", "\<close> and
  \<^verbatim>\<open>": "\<close>): the quote, the backslash and the five short control escapes, and
  \<^verbatim>\<open>\u00xx\<close> for every other character outside the printable ASCII range. A
  character is a code point below 256 here.
\<close>

definition escape_char :: "char \<Rightarrow> string" where
  "escape_char c =
     (if c = CHR 0x22 then [CHR 0x5C, CHR 0x22]
      else if c = CHR 0x5C then [CHR 0x5C, CHR 0x5C]
      else if c = CHR 0x0A then [CHR 0x5C, CHR ''n'']
      else if c = CHR 0x0D then [CHR 0x5C, CHR ''r'']
      else if c = CHR 0x09 then [CHR 0x5C, CHR ''t'']
      else if c = CHR 0x08 then [CHR 0x5C, CHR ''b'']
      else if c = CHR 0x0C then [CHR 0x5C, CHR ''f'']
      else if of_char c < (32::nat) \<or> (126::nat) < of_char c
        then [CHR 0x5C, CHR ''u'', CHR ''0'', CHR ''0'',
              hex_char (of_char c div 16), hex_char (of_char c mod 16)]
      else [c])"

definition encode_str :: "string \<Rightarrow> string" where
  "encode_str s = CHR 0x22 # concat (map escape_char s) @ [CHR 0x22]"

fun json_dumps :: "json \<Rightarrow> string" where
  "json_dumps JNull = ''null''"
| "json_dumps (JInt i) = str_int i"
| "json_dumps (JStr s) = encode_str s"
| "json_dumps (JList xs) = ''['' @ str_join '', '' (map json_dumps xs) @ '']''"
| "json_dumps (JObj kvs) =
     ''{'' @ str_join '', ''
        (map (\<lambda>kv. encode_str (fst kv) @ '': '' @ json_dumps (snd kv)) kvs) @ ''}''"

subsection \<open>The parsed flags and the cluster descriptor\<close>

text \<open>
  \<^verbatim>\<open>get_args\<close> declares three optional flags, \<^verbatim>\<open>--run_id\<close> and \<^verbatim>\<open>--task_index\<close> with
  \<^verbatim>\<open>type=int\<close>; the namespace it returns holds \<^verbatim>\<open>None\<close> for a flag that was not given.
\<close>

record args =
  run_id :: "int option"
  worker_hosts :: "string option"
  task_index :: "int option"

definition py_int_opt :: "int option \<Rightarrow> pyval" where
  "py_int_opt v = (case v of None \<Rightarrow> PyNone | Some i \<Rightarrow> PyInt i)"

definition json_int_opt :: "int option \<Rightarrow> json" where
  "json_int_opt v = (case v of None \<Rightarrow> JNull | Some i \<Rightarrow> JInt i)"

definition cluster_dict :: "string list \<Rightarrow> int option \<Rightarrow> json" where
  "cluster_dict hosts idx =
     JObj [(''cluster'', JObj [(''worker'', JList (map JStr hosts))]),
           (''task'', JObj [(''type'', JStr ''worker''), (''index'', json_int_opt idx)])]"

subsection \<open>Tensors, the dataset and the model description\<close>

type_synonym image = "f32 list list list"
type_synonym raw_image = "8 word list list"
type_synonym labels = "8 word list"
type_synonym logits = "f32 list list"
type_synonym replica_inputs = "image list \<times> labels"
type_synonym metric_update = "labels \<times> 64 word list list"

datatype layer =
    Conv2D nat nat string
  | MaxPooling2D
  | Flatten
  | Dense nat "string option"

definition build_model :: "layer list" where
  "build_model =
     [Conv2D 32 3 ''relu'', MaxPooling2D, Conv2D 64 3 ''relu'', MaxPooling2D, Flatten,
      Dense 64 (Some ''relu''), Dense 10 None]"

record dataset =
  ds_images :: "image list"
  ds_labels :: labels
  ds_shuffle :: nat
  ds_batch :: nat

datatype comet_call =
    NewExperiment string
  | LogOther string pyval
  | LogMetric string f32 nat

subsection \<open>The libraries the script calls\<close>

text \<open>
  Every call into a library is an operation on the libraries' own state \<open>'s\<close> that
  returns a result and the next state, or raises. The arithmetic on tensors, the
  value of the accuracy metric (a function of the updates it received since it was
  last reset) and the \<^verbatim>\<open>%f\<close> format are the libraries' too. Iterating over the
  distributed dataset gives, for one epoch, the finite list of its batches, each a
  list of per-replica inputs.
\<close>

record 's api =
  load_data :: "'s \<Rightarrow> error + (((raw_image list \<times> labels) \<times> (raw_image list \<times> labels)) \<times> 's)"
  Experiment :: "string \<Rightarrow> 's \<Rightarrow> error + (unit \<times> 's)"
  log_other :: "string \<Rightarrow> pyval \<Rightarrow> 's \<Rightarrow> error + (unit \<times> 's)"
  log_metric :: "string \<Rightarrow> f32 \<Rightarrow> nat \<Rightarrow> 's \<Rightarrow> error + (unit \<times> 's)"
  MultiWorkerMirroredStrategy :: "(string \<rightharpoonup> string) \<Rightarrow> 's \<Rightarrow> error + (nat \<times> 's)"
  Sequential :: "layer list \<Rightarrow> 's \<Rightarrow> error + (unit \<times> 's)"
  Adam :: "'s \<Rightarrow> error + (unit \<times> 's)"
  model_call :: "image list \<Rightarrow> 's \<Rightarrow> error + (logits \<times> 's)"
  criterion :: "labels \<Rightarrow> logits \<Rightarrow> 's \<Rightarrow> error + (f32 list \<times> 's)"
  compute_average_loss :: "f32 list \<Rightarrow> nat \<Rightarrow> 's \<Rightarrow> error + (f32 \<times> 's)"
  tape_gradient :: "f32 \<Rightarrow> 's \<Rightarrow> error + (f32 list list \<times> 's)"
  apply_gradients :: "f32 list list \<Rightarrow> 's \<Rightarrow> error + (unit \<times> 's)"
  strategy_reduce :: "f32 list \<Rightarrow> 's \<Rightarrow> error + (f32 \<times> 's)"
  distribute_datasets_from_function :: "dataset \<Rightarrow> 's \<Rightarrow> error + (unit \<times> 's)"
  iterate :: "dataset \<Rightarrow> 's \<Rightarrow> error + (replica_inputs list list \<times> 's)"
  metric_result :: "metric_update list \<Rightarrow> f32"
  tf_add :: "f32 \<Rightarrow> f32 \<Rightarrow> f32"
  tf_truediv :: "f32 \<Rightarrow> nat \<Rightarrow> f32"
  format_f :: "f32 \<Rightarrow> string"

subsection \<open>The process state and the sequencing of statements\<close>

text \<open>
  What the script changes: the environment variables, the calls made to the tracking
  service (in order), the lines printed, the state of the \<^verbatim>\<open>train_accuracy\<close> metric
  (the updates since its last reset) and the libraries' state.
\<close>

record 's world =
  environ :: "string \<rightharpoonup> string"
  tracking :: "comet_call list"
  stdout :: "string list"
  train_accuracy :: "metric_update list"
  ext :: 's

text \<open>
  A statement maps the state to the next state and either a value or the exception
  it raised. The script has no \<^verbatim>\<open>try\<close>: the only way to combine statements is
  \<open>bind_prog\<close>, which stops at the first exception.
\<close>

type_synonym ('s, 'a) prog = "'s world \<Rightarrow> 's world \<times> (error + 'a)"

definition return_prog :: "'a \<Rightarrow> ('s, 'a) prog" where
  "return_prog x = (\<lambda>w. (w, Inr x))"

definition raise_prog :: "error \<Rightarrow> ('s, 'a) prog" where
  "raise_prog e = (\<lambda>w. (w, Inl e))"

definition bind_prog :: "('s, 'a) prog \<Rightarrow> ('a \<Rightarrow> ('s, 'b) prog) \<Rightarrow> ('s, 'b) prog" where
  "bind_prog m f =
     (\<lambda>w. case m w of (w', Inl e) \<Rightarrow> (w', Inl e) | (w', Inr x) \<Rightarrow> f x w')"

definition call :: "('s \<Rightarrow> error + ('a \<times> 's)) \<Rightarrow> ('s, 'a) prog" where
  "call op =
     (\<lambda>w. case op (ext w) of Inl e \<Rightarrow> (w, Inl e) | Inr (x, s) \<Rightarrow> (w\<lparr>ext := s\<rparr>, Inr x))"

definition putenv :: "string \<Rightarrow> string \<Rightarrow> ('s, unit) prog" where
  "putenv k v = (\<lambda>w. (w\<lparr>environ := (environ w)(k \<mapsto> v)\<rparr>, Inr ()))"

definition print :: "string \<Rightarrow> ('s, unit) prog" where
  "print line = (\<lambda>w. (w\<lparr>stdout := stdout w @ [line]\<rparr>, Inr ()))"

definition comet :: "comet_call \<Rightarrow> ('s \<Rightarrow> error + (unit \<times> 's)) \<Rightarrow> ('s, unit) prog" where
  "comet c op = bind_prog (\<lambda>w. (w\<lparr>tracking := tracking w @ [c]\<rparr>, Inr ())) (\<lambda>_. call op)"

definition update_state :: "labels \<Rightarrow> 64 word list list \<Rightarrow> ('s, unit) prog" where
  "update_state y_true y_pred =
     (\<lambda>w. (w\<lparr>train_accuracy := train_accuracy w @ [(y_true, y_pred)]\<rparr>, Inr ()))"

definition reset_states :: "('s, unit) prog" where
  "reset_states = (\<lambda>w. (w\<lparr>train_accuracy := []\<rparr>, Inr ()))"

text \<open>Creating the metric: it starts with no update.\<close>

definition SparseCategoricalAccuracy :: "('s, unit) prog" where
  "SparseCategoricalAccuracy = (\<lambda>w. (w\<lparr>train_accuracy := []\<rparr>, Inr ()))"

definition result :: "'s api \<Rightarrow> ('s, f32) prog" where
  "result api = (\<lambda>w. (w, Inr (metric_result api (train_accuracy w))))"

fun for_each :: "'a list \<Rightarrow> ('a \<Rightarrow> ('s, unit) prog) \<Rightarrow> ('s, unit) prog" where
  "for_each [] body = return_prog ()"
| "for_each (x # xs) body = bind_prog (body x) (\<lambda>_. for_each xs body)"

subsection \<open>Module level: constants, loading and normalising the images\<close>

definition PROJECT_NAME :: string where
  "PROJECT_NAME = ''tf-distributed-multiworker-mirrored''"

definition EPOCHS :: nat where
  "EPOCHS = 10"

definition BATCH_SIZE_PER_REPLICA :: nat where
  "BATCH_SIZE_PER_REPLICA = 64"

text \<open>
  Rounding a rational to float32 (binary32, round to nearest, ties to even): 24
  significant bits, the exponent of the leading bit at least \<open>-126\<close>, overflow to an
  infinity from \<open>2 ^ 128\<close> on.
\<close>

fun bitlen :: "nat \<Rightarrow> nat" where
  "bitlen n = (if n = 0 then 0 else Suc (bitlen (n div 2)))"

definition pow2 :: "int \<Rightarrow> rat" where
  "pow2 k = (if 0 \<le> k then 2 ^ nat k else 1 / 2 ^ nat (- k))"

definition floor_log2 :: "rat \<Rightarrow> int" where
  "floor_log2 q =
     (case quotient_of q of (a, b) \<Rightarrow>
        let d = int (bitlen (nat a)) - int (bitlen (nat b))
        in if pow2 d \<le> q then d else d - 1)"

definition round_half_even :: "rat \<Rightarrow> int" where
  "round_half_even x =
     (let f = \<lfloor>x\<rfloor>; r = x - of_int f
      in if r < 1 / 2 then f else if 1 / 2 < r then f + 1 else if even f then f else f + 1)"

definition f32_of_rat :: "rat \<Rightarrow> f32" where
  "f32_of_rat q =
     (if q = 0 then Finite 0
      else let e = max (floor_log2 \<bar>q\<bar>) (- 126);
               ulp = pow2 (e - 23);
               r = of_int (round_half_even (\<bar>q\<bar> / ulp)) * ulp
           in if pow2 128 \<le> r then (if q < 0 then NegInf else PosInf)
              else Finite (if q < 0 then - r else r))"

text \<open>
  \<^verbatim>\<open>images / np.float32(255)\<close> on a \<^verbatim>\<open>uint8\<close> array: every element is converted to
  float32 (exactly) and divided, the quotient rounded to float32.
\<close>

definition np_true_divide :: "8 word \<Rightarrow> rat \<Rightarrow> f32" where
  "np_true_divide v d = f32_of_rat (of_nat (unat v) / d)"

text \<open>\<^verbatim>\<open>images[..., None]\<close>: a new last axis of length 1.\<close>

definition new_axis :: "raw_image list \<Rightarrow> 8 word list list list list" where
  "new_axis imgs = map (map (map (\<lambda>v. [v]))) imgs"

definition normalize :: "8 word list list list list \<Rightarrow> image list" where
  "normalize imgs = map (map (map (map (\<lambda>v. np_true_divide v 255)))) imgs"

record globals =
  train_images :: "image list"
  train_labels :: labels
  test_images :: "image list"
  test_labels :: labels
  BUFFER_SIZE :: nat

definition module_init :: "'s api \<Rightarrow> ('s, globals) prog" where
  "module_init api =
     bind_prog (putenv ''GRPC_FAIL_FAST'' ''use_caller'') (\<lambda>_.
     bind_prog (call (load_data api)) (\<lambda>loaded.
       case loaded of ((tr_images, tr_labels), (te_images, te_labels)) \<Rightarrow>
         let tr = normalize (new_axis tr_images);
             te = normalize (new_axis te_images)
         in return_prog \<lparr>train_images = tr, train_labels = tr_labels,
                          test_images = te, test_labels = te_labels,
                          BUFFER_SIZE = length tr\<rparr>))"

subsection \<open>The training step\<close>

text \<open>\<^verbatim>\<open>tf.greater\<close> on float32: false whenever an operand is NaN.\<close>

fun tf_greater :: "f32 \<Rightarrow> f32 \<Rightarrow> bool" where
  "tf_greater NaN y = False"
| "tf_greater x NaN = False"
| "tf_greater (Finite a) (Finite b) = (b < a)"
| "tf_greater (Finite a) NegInf = True"
| "tf_greater (Finite a) PosInf = False"
| "tf_greater PosInf PosInf = False"
| "tf_greater PosInf y = True"
| "tf_greater NegInf y = False"

definition cast_int64 :: "bool \<Rightarrow> 64 word" where
  "cast_int64 b = (if b then 1 else 0)"

definition actual_pred :: "logits \<Rightarrow> 64 word list list" where
  "actual_pred pred = map (map (\<lambda>x. cast_int64 (tf_greater x (Finite (1 / 2))))) pred"

definition compute_loss :: "'s api \<Rightarrow> nat \<Rightarrow> labels \<Rightarrow> logits \<Rightarrow> ('s, f32) prog" where
  "compute_loss api GLOBAL_BATCH_SIZE y predictions =
     bind_prog (call (criterion api y predictions)) (\<lambda>per_example_loss.
     call (compute_average_loss api per_example_loss GLOBAL_BATCH_SIZE))"

definition train_step :: "'s api \<Rightarrow> nat \<Rightarrow> replica_inputs \<Rightarrow> ('s, f32) prog" where
  "train_step api GLOBAL_BATCH_SIZE inputs =
     (case inputs of (images, y) \<Rightarrow>
        bind_prog (call (model_call api images)) (\<lambda>pred.
        bind_prog (compute_loss api GLOBAL_BATCH_SIZE y pred) (\<lambda>loss.
        bind_prog (call (tape_gradient api loss)) (\<lambda>gradients.
        bind_prog (call (apply_gradients api gradients)) (\<lambda>_.
        bind_prog (update_state y (actual_pred pred)) (\<lambda>_.
        return_prog loss))))))"

text \<open>\<^verbatim>\<open>strategy.run\<close>: the step on every local replica, the losses collected.\<close>

fun strategy_run :: "'s api \<Rightarrow> nat \<Rightarrow> replica_inputs list \<Rightarrow> ('s, f32 list) prog" where
  "strategy_run api GLOBAL_BATCH_SIZE [] = return_prog []"
| "strategy_run api GLOBAL_BATCH_SIZE (inputs # rest) =
     bind_prog (train_step api GLOBAL_BATCH_SIZE inputs) (\<lambda>loss.
     bind_prog (strategy_run api GLOBAL_BATCH_SIZE rest) (\<lambda>losses.
     return_prog (loss # losses)))"

definition step_fn :: "'s api \<Rightarrow> nat \<Rightarrow> replica_inputs list \<Rightarrow> ('s, f32) prog" where
  "step_fn api GLOBAL_BATCH_SIZE dataset_inputs =
     bind_prog (strategy_run api GLOBAL_BATCH_SIZE dataset_inputs) (\<lambda>losses.
     call (strategy_reduce api losses))"

definition dataset_fn :: "globals \<Rightarrow> nat \<Rightarrow> dataset" where
  "dataset_fn g GLOBAL_BATCH_SIZE =
     \<lparr>ds_images = train_images g, ds_labels = train_labels g,
      ds_shuffle = BUFFER_SIZE g, ds_batch = GLOBAL_BATCH_SIZE\<rparr>"

subsection \<open>The epoch loop and \<^verbatim>\<open>main\<close>\<close>

text \<open>\<^verbatim>\<open>total_loss += loss\<close>: the int 0 is converted to the tensor 0.0 first.\<close>

definition add_total :: "'s api \<Rightarrow> total \<Rightarrow> f32 \<Rightarrow> total" where
  "add_total api total_loss loss =
     (case total_loss of
        IntZero \<Rightarrow> TensorTotal (tf_add api (Finite 0) loss)
      | TensorTotal t \<Rightarrow> TensorTotal (tf_add api t loss))"

text \<open>
  \<^verbatim>\<open>total_loss / num_batches\<close>: between Python ints the division raises on a zero
  divisor and \<^verbatim>\<open>0 / n\<close> is \<^verbatim>\<open>0.0\<close>; a tensor divided by an int is the framework's division.
\<close>

definition div_total :: "'s api \<Rightarrow> total \<Rightarrow> nat \<Rightarrow> ('s, f32) prog" where
  "div_total api total_loss num_batches =
     (case total_loss of
        IntZero \<Rightarrow> if num_batches = 0 then raise_prog ZeroDivisionError
                   else return_prog (Finite 0)
      | TensorTotal t \<Rightarrow> return_prog (tf_truediv api t num_batches))"

fun batches_loop ::
  "'s api \<Rightarrow> nat \<Rightarrow> replica_inputs list list \<Rightarrow> total \<times> nat \<Rightarrow> ('s, total \<times> nat) prog" where
  "batches_loop api GLOBAL_BATCH_SIZE [] acc = return_prog acc"
| "batches_loop api GLOBAL_BATCH_SIZE (x # xs) acc =
     (case acc of (total_loss, num_batches) \<Rightarrow>
        bind_prog (step_fn api GLOBAL_BATCH_SIZE x) (\<lambda>loss.
        batches_loop api GLOBAL_BATCH_SIZE xs (add_total api total_loss loss, num_batches + 1)))"

definition finished_line :: "'s api \<Rightarrow> nat \<Rightarrow> f32 \<Rightarrow> string" where
  "finished_line api i acc =
     ''Finished epoch '' @ str_nat i @ '', accuracy is '' @ format_f api acc @ ''.''"

definition log_train_loss :: "'s api \<Rightarrow> total \<Rightarrow> nat \<Rightarrow> nat \<Rightarrow> ('s, unit) prog" where
  "log_train_loss api total_loss num_batches i =
     bind_prog (div_total api total_loss num_batches) (\<lambda>v.
     comet (LogMetric ''train_loss'' v i) (log_metric api ''train_loss'' v i))"

definition epoch :: "'s api \<Rightarrow> dataset \<Rightarrow> nat \<Rightarrow> int option \<Rightarrow> nat \<Rightarrow> ('s, unit) prog" where
  "epoch api dist_dataset GLOBAL_BATCH_SIZE tidx i =
     bind_prog (call (iterate api dist_dataset)) (\<lambda>batches.
     bind_prog (batches_loop api GLOBAL_BATCH_SIZE batches (IntZero, 0)) (\<lambda>acc.
       case acc of (total_loss, num_batches) \<Rightarrow>
     bind_prog (if tidx = Some 0 then log_train_loss api total_loss num_batches i
                else return_prog ()) (\<lambda>_.
     bind_prog (result api) (\<lambda>accuracy.
     bind_prog (print (finished_line api i accuracy)) (\<lambda>_.
     reset_states)))))"

definition open_experiment :: "'s api \<Rightarrow> args \<Rightarrow> string \<Rightarrow> ('s, unit) prog" where
  "open_experiment api a hosts_arg =
     bind_prog (comet (NewExperiment PROJECT_NAME) (Experiment api PROJECT_NAME)) (\<lambda>_.
     bind_prog (comet (LogOther ''run_id'' (py_int_opt (run_id a)))
                  (log_other api ''run_id'' (py_int_opt (run_id a)))) (\<lambda>_.
     comet (LogOther ''worker_hosts'' (PyStr hosts_arg))
       (log_other api ''worker_hosts'' (PyStr hosts_arg))))"

text \<open>Everything from the creation of the strategy on (lines 93 to 147).\<close>

definition training :: "'s api \<Rightarrow> globals \<Rightarrow> int option \<Rightarrow> ('s, unit) prog" where
  "training api g tidx =
     bind_prog (\<lambda>w. call (MultiWorkerMirroredStrategy api (environ w)) w) (\<lambda>num_replicas_in_sync.
       let GLOBAL_BATCH_SIZE = BATCH_SIZE_PER_REPLICA * num_replicas_in_sync in
     bind_prog (call (Sequential api build_model)) (\<lambda>_.
     bind_prog (call (Adam api)) (\<lambda>_.
     bind_prog SparseCategoricalAccuracy (\<lambda>_.
     bind_prog (call (distribute_datasets_from_function api (dataset_fn g GLOBAL_BATCH_SIZE))) (\<lambda>_.
     for_each [0..<EPOCHS] (epoch api (dataset_fn g GLOBAL_BATCH_SIZE) GLOBAL_BATCH_SIZE tidx))))))"

text \<open>
  \<^verbatim>\<open>args.worker_hosts.split(",")\<close> raises \<^verbatim>\<open>AttributeError\<close> on \<^verbatim>\<open>None\<close>. The comparison
  \<^verbatim>\<open>task_index == 0\<close> is false for \<^verbatim>\<open>None\<close>, and \<^verbatim>\<open>json.dumps\<close> writes \<^verbatim>\<open>None\<close> as \<^verbatim>\<open>null\<close>.
\<close>

definition main :: "'s api \<Rightarrow> globals \<Rightarrow> args \<Rightarrow> ('s, unit) prog" where
  "main api g a =
     (case worker_hosts a of
        None \<Rightarrow> raise_prog AttributeError
      | Some hosts_arg \<Rightarrow>
          let hosts = str_split hosts_arg CHR '','';
              num_workers = length hosts
          in bind_prog (putenv ''TF_CONFIG'' (json_dumps (cluster_dict hosts (task_index a)))) (\<lambda>_.
             bind_prog (if task_index a = Some 0 then open_experiment api a hosts_arg
                        else return_prog ()) (\<lambda>_.
             training api g (task_index a))))"

definition script :: "'s api \<Rightarrow> args \<Rightarrow> ('s, unit) prog" where
  "script api a = bind_prog (module_init api) (\<lambda>g. main api g a)"

subsection \<open>Notions used to state the properties\<close>

text \<open>The sessions opened, the metadata fields and the metrics among the tracking calls.\<close>

fun sessions :: "comet_call list \<Rightarrow> string list" where
  "sessions [] = []"
| "sessions (NewExperiment p # cs) = p # sessions cs"
| "sessions (c # cs) = sessions cs"

fun metadata :: "comet_call list \<Rightarrow> (string \<times> pyval) list" where
  "metadata [] = []"
| "metadata (LogOther k v # cs) = (k, v) # metadata cs"
| "metadata (c # cs) = metadata cs"

fun metric_tags :: "comet_call list \<Rightarrow> (string \<times> nat) list" where
  "metric_tags [] = []"
| "metric_tags (LogMetric name v i # cs) = (name, i) # metric_tags cs"
| "metric_tags (c # cs) = metric_tags cs"

text \<open>The tracking calls with the value of the \<^verbatim>\<open>run_id\<close> field blanked.\<close>

fun erase_run_id :: "comet_call \<Rightarrow> comet_call" where
  "erase_run_id (LogOther k v) = (if k = ''run_id'' then LogOther k PyNone else LogOther k v)"
| "erase_run_id c = c"

text \<open>
  The losses that \<^verbatim>\<open>step_fn\<close> returns for the batches of one epoch, in order, when the
  epoch starts in state \<open>w\<close>.
\<close>

fun step_losses :: "'s api \<Rightarrow> nat \<Rightarrow> replica_inputs list list \<Rightarrow> 's world \<Rightarrow> f32 list" where
  "step_losses api GLOBAL_BATCH_SIZE [] w = []"
| "step_losses api GLOBAL_BATCH_SIZE (x # xs) w =
     (case step_fn api GLOBAL_BATCH_SIZE x w of
        (w', Inr loss) \<Rightarrow> loss # step_losses api GLOBAL_BATCH_SIZE xs w'
      | (w', Inl e) \<Rightarrow> [])"

text \<open>
  The updates that the steps of one epoch feed to the metric: what the metric holds
  after the batches when it was empty before them.
\<close>

definition epoch_updates ::
  "'s api \<Rightarrow> nat \<Rightarrow> replica_inputs list list \<Rightarrow> 's world \<Rightarrow> metric_update list" where
  "epoch_updates api GLOBAL_BATCH_SIZE batches w =
     train_accuracy
       (fst (batches_loop api GLOBAL_BATCH_SIZE batches (IntZero, 0) (w\<lparr>train_accuracy := []\<rparr>)))"

text \<open>Membership in the unit interval, for a float32 value.\<close>

fun in_unit_interval :: "f32 \<Rightarrow> bool" where
  "in_unit_interval (Finite q) = (0 \<le> q \<and> q \<le> 1)"
| "in_unit_interval x = False"

subsection \<open>A small instance of the libraries\<close>

text \<open>
  Libraries that never fail, over a counter of the model calls made: one replica, one
  batch per epoch holding the first example, ten fixed logits per example, exact
  arithmetic on finite values. The strategy refuses to start without \<^verbatim>\<open>TF_CONFIG\<close>.
\<close>

definition demo_logits :: "f32 list" where
  "demo_logits =
     [Finite (1 / 10), Finite (7 / 10), Finite (1 / 2), NaN, PosInf, NegInf, Finite 0,
      Finite 2, Finite (- 1), Finite (9 / 10)]"

definition demo_api :: "nat api" where
  "demo_api =
     \<lparr>load_data = (\<lambda>s. Inr ((([[[0, 255]]], [3]), ([[[128]]], [1])), s)),
      Experiment = (\<lambda>_ s. Inr ((), s)),
      log_other = (\<lambda>_ _ s. Inr ((), s)),
      log_metric = (\<lambda>_ _ _ s. Inr ((), s)),
      MultiWorkerMirroredStrategy = (\<lambda>env s. case env ''TF_CONFIG'' of
          None \<Rightarrow> Inl (External ''TF_CONFIG'') | Some _ \<Rightarrow> Inr (1, s)),
      Sequential = (\<lambda>_ s. Inr ((), s)),
      Adam = (\<lambda>s. Inr ((), s)),
      model_call = (\<lambda>imgs s. Inr (map (\<lambda>_. demo_logits) imgs, Suc s)),
      criterion = (\<lambda>y p s. Inr (map (\<lambda>_. Finite 1) y, s)),
      compute_average_loss = (\<lambda>l n s. Inr (Finite (of_nat (length l)), s)),
      tape_gradient = (\<lambda>l s. Inr ([], s)),
      apply_gradients = (\<lambda>_ s. Inr ((), s)),
      strategy_reduce = (\<lambda>ls s. Inr (case ls of [] \<Rightarrow> Finite 0 | l # _ \<Rightarrow> l, s)),
      distribute_datasets_from_function = (\<lambda>_ s. Inr ((), s)),
      iterate = (\<lambda>ds s. Inr ([[(take 1 (ds_images ds), take 1 (ds_labels ds))]], s)),
      metric_result = (\<lambda>us. Finite (of_nat (length us))),
      tf_add = (\<lambda>x y. case (x, y) of (Finite a, Finite b) \<Rightarrow> Finite (a + b) | _ \<Rightarrow> NaN),
      tf_truediv = (\<lambda>x n. case x of Finite a \<Rightarrow> Finite (a / of_nat n) | _ \<Rightarrow> NaN),
      format_f = (\<lambda>x. ''?'')\<rparr>"

definition demo_world :: "nat world" where
  "demo_world =
     \<lparr>environ = Map.empty, tracking = [], stdout = [], train_accuracy = [], ext = 0\<rparr>"

definition demo_globals :: globals where
  "demo_globals =
     \<lparr>train_images = [[[[Finite 0], [Finite 1]]]], train_labels = [3],
      test_images = [[[[Finite (8421505 / 16777216)]]]], test_labels = [1],
      BUFFER_SIZE = 1\<rparr>"

definition demo_args :: "int option \<Rightarrow> int option \<Rightarrow> args" where
  "demo_args rid idx = \<lparr>run_id = rid, worker_hosts = Some ''a:1,b:2'', task_index = idx\<rparr>"

subsection \<open>Frames\<close>

text \<open>A statement keeps a view of the state when running it never changes that view.\<close>

definition keeps :: "('s world \<Rightarrow> 'x) \<Rightarrow> ('s, 'a) prog \<Rightarrow> bool" where
  "keeps sel m = (\<forall>w. sel (fst (m w)) = sel w)"

text \<open>
  A view of the state that ignores the libraries' state and the metric; a view that
  ignores the printed lines; and a view that ignores the metrics logged to the
  tracking service.
\<close>

definition blind :: "('s world \<Rightarrow> 'x) \<Rightarrow> bool" where
  "blind sel =
     ((\<forall>w s. sel (w\<lparr>ext := s\<rparr>) = sel w) \<and>
      (\<forall>w m. sel (w\<lparr>train_accuracy := m\<rparr>) = sel w))"

definition ignores_stdout :: "('s world \<Rightarrow> 'x) \<Rightarrow> bool" where
  "ignores_stdout sel = (\<forall>w l. sel (w\<lparr>stdout := l\<rparr>) = sel w)"

definition ignores_metrics :: "('s world \<Rightarrow> 'x) \<Rightarrow> bool" where
  "ignores_metrics sel =
     (\<forall>w name v i. sel (w\<lparr>tracking := tracking w @ [LogMetric name v i]\<rparr>) = sel w)"

text \<open>
  A statement only appends to the tracking calls, and does not read them: whatever
  calls were made before, it makes the same new ones and ends alike.
\<close>

definition appends :: "('s, 'a) prog \<Rightarrow> bool" where
  "appends m =
     (\<forall>w. \<exists>new w' r. \<forall>T. m (w\<lparr>tracking := T\<rparr>) = (w'\<lparr>tracking := T @ new\<rparr>, r))"

text \<open>
  A statement only appends to the updates held by the metric, and does not read
  them: whatever the metric held before, it feeds the same new updates.
\<close>

definition feeds :: "('s, 'a) prog \<Rightarrow> bool" where
  "feeds m =
     (\<forall>w. \<exists>new w' r. \<forall>M.
        m (w\<lparr>train_accuracy := M\<rparr>) = (w'\<lparr>train_accuracy := M @ new\<rparr>, r))"

section \<open>Properties\<close>

subsection \<open>Sequencing\<close>

lemma bind_return [simp]: "bind_prog (return_prog x) f = f x"
  by (simp add: bind_prog_def return_prog_def)

lemma bind_raise [simp]: "bind_prog (raise_prog e) f = raise_prog e"
  by (simp add: bind_prog_def raise_prog_def)

lemma bind_Inl: "m w = (w1, Inl e) \<Longrightarrow> bind_prog m f w = (w1, Inl e)"
  by (simp add: bind_prog_def)

lemma bind_Inr: "m w = (w1, Inr x) \<Longrightarrow> bind_prog m f w = f x w1"
  by (simp add: bind_prog_def)

lemma bind_InrE:
  assumes "bind_prog m f w = (w', Inr y)"
  obtains w1 x where "m w = (w1, Inr x)" and "f x w1 = (w', Inr y)"
  using assms by (auto simp: bind_prog_def split: prod.splits sum.splits)

lemma call_Inr: "op (ext w) = Inr (x, s) \<Longrightarrow> call op w = (w\<lparr>ext := s\<rparr>, Inr x)"
  by (simp add: call_def)

lemma call_Inl: "op (ext w) = Inl e \<Longrightarrow> call op w = (w, Inl e)"
  by (simp add: call_def)

lemma call_InrE:
  assumes "call op w = (w', Inr x)"
  obtains s where "op (ext w) = Inr (x, s)" and "w' = w\<lparr>ext := s\<rparr>"
  using assms by (auto simp: call_def split: sum.splits)

lemma for_each_append:
  "for_each (xs @ ys) body = bind_prog (for_each xs body) (\<lambda>_. for_each ys body)"
proof (induction xs)
  case Nil
  show ?case by simp
next
  case (Cons x xs)
  show ?case
    by (rule ext) (simp add: Cons bind_prog_def split: prod.splits sum.splits)
qed

subsection \<open>What a statement leaves unchanged\<close>

lemma keepsD: "keeps sel m \<Longrightarrow> sel (fst (m w)) = sel w"
  by (simp add: keeps_def)

lemma keeps_return: "keeps sel (return_prog x)"
  by (simp add: keeps_def return_prog_def)

lemma keeps_raise: "keeps sel (raise_prog e)"
  by (simp add: keeps_def raise_prog_def)

lemma keeps_bind:
  assumes "keeps sel m" and "\<And>x. keeps sel (f x)"
  shows "keeps sel (bind_prog m f)"
  using assms unfolding keeps_def bind_prog_def
  by (auto split: prod.splits sum.splits) (metis fst_conv)+

lemma keeps_if: "keeps sel m \<Longrightarrow> keeps sel n \<Longrightarrow> keeps sel (if b then m else n)"
  by simp

lemma keeps_for_each:
  assumes "\<And>x. keeps sel (body x)"
  shows "keeps sel (for_each xs body)"
  by (induction xs) (auto intro: assms keeps_bind keeps_return)

lemma keeps_update: "(\<And>w. sel (upd w) = sel w) \<Longrightarrow> keeps sel (\<lambda>w. (upd w, r w))"
  by (simp add: keeps_def)

lemma keeps_call: "(\<And>w s. sel (w\<lparr>ext := s\<rparr>) = sel w) \<Longrightarrow> keeps sel (call op)"
  by (auto simp: keeps_def call_def split: sum.splits)

lemma blind_call: "blind sel \<Longrightarrow> keeps sel (call op)"
  by (rule keeps_call) (simp add: blind_def)

lemma blind_train_step: "blind sel \<Longrightarrow> keeps sel (train_step api G inputs)"
  unfolding train_step_def compute_loss_def update_state_def
  by (cases inputs)
    (auto intro!: keeps_bind blind_call keeps_return keeps_update simp: blind_def)

lemma blind_strategy_run: "blind sel \<Longrightarrow> keeps sel (strategy_run api G xs)"
  by (induction xs) (auto intro!: keeps_bind keeps_return blind_train_step)

lemma blind_step_fn: "blind sel \<Longrightarrow> keeps sel (step_fn api G x)"
  unfolding step_fn_def by (intro keeps_bind blind_strategy_run blind_call)

lemma blind_batches_loop: "blind sel \<Longrightarrow> keeps sel (batches_loop api G xs acc)"
  by (induction xs arbitrary: acc)
    (auto intro!: keeps_bind keeps_return blind_step_fn split: prod.splits)

lemma keeps_log_train_loss:
  assumes "\<And>w s. sel (w\<lparr>ext := s\<rparr>) = sel w" and "ignores_metrics sel"
  shows "keeps sel (log_train_loss api t n i)"
  unfolding log_train_loss_def div_total_def comet_def
  using assms
  by (auto intro!: keeps_bind keeps_return keeps_raise keeps_call keeps_update
      simp: ignores_metrics_def split: total.splits)

lemma blind_epoch:
  assumes "blind sel" and "ignores_stdout sel" and "ignores_metrics sel \<or> tidx \<noteq> Some 0"
  shows "keeps sel (epoch api ds G tidx i)"
proof -
  have log: "keeps sel (if tidx = Some 0 then log_train_loss api t n i else return_prog ())"
    for t n
    using assms by (auto intro!: keeps_log_train_loss keeps_return simp: blind_def)
  have tail: "keeps sel (\<lambda>w. (w, Inr (metric_result api (train_accuracy w))))"
    "keeps sel (\<lambda>w. (w\<lparr>stdout := stdout w @ [l]\<rparr>, Inr ()))"
    "keeps sel (\<lambda>w. (w\<lparr>train_accuracy := []\<rparr>, Inr ()))" for l
    using assms(1,2) by (auto intro!: keeps_update simp: blind_def ignores_stdout_def)
  show ?thesis
    unfolding epoch_def result_def print_def reset_states_def
    by (auto intro!: keeps_bind blind_call blind_batches_loop log tail assms(1)
        split: prod.splits)
qed

lemma blind_training:
  assumes "blind sel" and "ignores_stdout sel" and "ignores_metrics sel \<or> tidx \<noteq> Some 0"
  shows "keeps sel (training api g tidx)"
proof -
  have strategy: "keeps sel (\<lambda>w. call (MultiWorkerMirroredStrategy api (environ w)) w)"
    using assms(1) by (auto simp: keeps_def call_def blind_def split: sum.splits)
  have metric: "keeps sel SparseCategoricalAccuracy"
    unfolding SparseCategoricalAccuracy_def using assms(1)
    by (intro keeps_update) (simp add: blind_def)
  show ?thesis
    unfolding training_def Let_def
    by (intro keeps_bind keeps_for_each strategy metric blind_call blind_epoch assms)
qed

lemma blind_environ: "blind environ" "ignores_stdout environ" "ignores_metrics environ"
  by (simp_all add: blind_def ignores_stdout_def ignores_metrics_def)

lemma blind_tracking: "blind tracking" "ignores_stdout tracking"
  by (simp_all add: blind_def ignores_stdout_def)

lemma blind_stdout: "blind stdout" "ignores_metrics stdout"
  by (simp_all add: blind_def ignores_metrics_def)

lemma sessions_append: "sessions (xs @ ys) = sessions xs @ sessions ys"
  by (induction xs rule: sessions.induct) auto

lemma metadata_append: "metadata (xs @ ys) = metadata xs @ metadata ys"
  by (induction xs rule: metadata.induct) auto

lemma metric_tags_append: "metric_tags (xs @ ys) = metric_tags xs @ metric_tags ys"
  by (induction xs rule: metric_tags.induct) auto

lemma blind_sessions:
  "blind (\<lambda>w. sessions (tracking w))" "ignores_stdout (\<lambda>w. sessions (tracking w))"
  "ignores_metrics (\<lambda>w. sessions (tracking w))"
  by (simp_all add: blind_def ignores_stdout_def ignores_metrics_def sessions_append)

lemma blind_metadata:
  "blind (\<lambda>w. metadata (tracking w))" "ignores_stdout (\<lambda>w. metadata (tracking w))"
  "ignores_metrics (\<lambda>w. metadata (tracking w))"
  by (simp_all add: blind_def ignores_stdout_def ignores_metrics_def metadata_append)

lemma keeps_open_experiment_environ: "keeps environ (open_experiment api a h)"
  unfolding open_experiment_def comet_def
  by (intro keeps_bind keeps_call keeps_update) simp_all

lemma main_environ:
  assumes "worker_hosts a = Some hosts_arg"
  shows "environ (fst (main api g a w)) =
         (environ w)(''TF_CONFIG'' \<mapsto>
            json_dumps (cluster_dict (str_split hosts_arg CHR '','') (task_index a)))"
proof -
  let ?v = "json_dumps (cluster_dict (str_split hosts_arg CHR '','') (task_index a))"
  let ?rest = "bind_prog (if task_index a = Some 0 then open_experiment api a hosts_arg
                        else return_prog ()) (\<lambda>_. training api g (task_index a))"
  have k: "keeps environ ?rest"
    by (intro keeps_bind keeps_if keeps_open_experiment_environ blind_training
        blind_environ keeps_return disjI1)
  have "main api g a w = ?rest (w\<lparr>environ := (environ w)(''TF_CONFIG'' \<mapsto> ?v)\<rparr>)"
    using assms by (simp add: main_def Let_def putenv_def bind_prog_def)
  then show ?thesis
    using keepsD [OF k] by simp
qed

subsection \<open>Splitting the host list\<close>

lemma length_str_split: "length (str_split s sep) = Suc (count_list s sep)"
  by (induction s) (auto split: list.splits)

lemma str_split_nonempty: "str_split s sep \<noteq> []"
  using length_str_split [of s sep] by auto

lemma str_join_split: "str_join [sep] (str_split s sep) = s"
proof (induction s)
  case Nil
  then show ?case by simp
next
  case (Cons c cs)
  obtain h t where ht: "str_split cs sep = h # t"
    using str_split_nonempty [of cs sep] by (cases "str_split cs sep") auto
  with Cons show ?case
    by (cases t) auto
qed

lemma str_split_no_sep: "piece \<in> set (str_split s sep) \<Longrightarrow> sep \<notin> set piece"
  by (induction s arbitrary: piece) (auto split: if_splits list.splits)

lemma demo_json:
  "json_dumps (cluster_dict (str_split ''a:1,b:2'' CHR '','') (Some 0)) =
   ''{\"cluster\": {\"worker\": [\"a:1\", \"b:2\"]}, \"task\": {\"type\": \"worker\", \"index\": 0}}''"
  by code_simp

subsection \<open>The cluster descriptor\<close>

text \<open>
  Claim C1. For every worker-hosts string and every integer task index among the parsed
  flags, and whatever the libraries do afterwards, \<^verbatim>\<open>main\<close> leaves in \<^verbatim>\<open>TF_CONFIG\<close>
  exactly \<^verbatim>\<open>json.dumps\<close> of the dictionary with the list of the comma-separated pieces
  of the string under \<^verbatim>\<open>cluster/worker\<close> and the type \<^verbatim>\<open>worker\<close> and the index under
  \<^verbatim>\<open>task\<close>. (By \<open>str_join_split\<close> and \<open>str_split_no_sep\<close> the pieces are the
  comma-free strings whose comma-separated concatenation is the flag.)
\<close>

theorem main_sets_TF_CONFIG:
  assumes "worker_hosts a = Some hosts_arg" and "task_index a = Some idx"
  shows "environ (fst (main api g a w)) ''TF_CONFIG'' =
         Some (json_dumps
           (JObj [(''cluster'', JObj [(''worker'', JList (map JStr (str_split hosts_arg CHR '','')))]),
                  (''task'', JObj [(''type'', JStr ''worker''), (''index'', JInt idx)])]))"
  using main_environ [OF assms(1), of api g w] assms(2)
  by (simp add: cluster_dict_def json_int_opt_def)

text \<open>On the demonstration libraries, with the hosts \<^verbatim>\<open>a:1,b:2\<close> and the index 0.\<close>

theorem main_sets_TF_CONFIG_witness:
  "worker_hosts (demo_args (Some 7) (Some 0)) = Some ''a:1,b:2'' \<and>
   task_index (demo_args (Some 7) (Some 0)) = Some 0 \<and>
   environ (fst (main demo_api demo_globals (demo_args (Some 7) (Some 0)) demo_world)) ''TF_CONFIG'' =
   Some ''{\"cluster\": {\"worker\": [\"a:1\", \"b:2\"]}, \"task\": {\"type\": \"worker\", \"index\": 0}}''"
proof -
  have h: "worker_hosts (demo_args (Some 7) (Some 0)) = Some ''a:1,b:2''"
    and i: "task_index (demo_args (Some 7) (Some 0)) = Some 0"
    by (simp_all add: demo_args_def)
  show ?thesis
    using main_sets_TF_CONFIG [OF h i, of demo_api demo_globals demo_world] h i demo_json
    by (simp add: cluster_dict_def json_int_opt_def)
qed

text \<open>
  Claim C8. Splitting any worker-hosts string on commas, the empty string included,
  gives as many pieces as the string has commas plus one, hence at least one; so the
  number of workers is at least 1 and the worker list that \<^verbatim>\<open>main\<close> writes into the
  cluster descriptor is never empty.
\<close>

theorem worker_list_nonempty:
  "length (str_split s CHR '','') = count_list s CHR '','' + 1 \<and>
   1 \<le> length (str_split s CHR '','') \<and>
   str_split s CHR '','' \<noteq> [] \<and>
   str_split [] CHR '','' = [[]] \<and>
   (worker_hosts a = Some s \<longrightarrow>
      (\<exists>hosts. hosts \<noteq> [] \<and> length hosts = count_list s CHR '','' + 1 \<and>
         environ (fst (main api g a w)) ''TF_CONFIG'' =
           Some (json_dumps (cluster_dict hosts (task_index a)))))"
proof -
  have len: "length (str_split s CHR '','') = count_list s CHR '','' + 1"
    by (simp add: length_str_split)
  have ne: "str_split s CHR '','' \<noteq> []"
    by (rule str_split_nonempty)
  have "environ (fst (main api g a w)) ''TF_CONFIG'' =
          Some (json_dumps (cluster_dict (str_split s CHR '','') (task_index a)))"
    if "worker_hosts a = Some s"
    using main_environ [OF that, of api g w] by simp
  with len ne show ?thesis
    by auto
qed

theorem worker_list_nonempty_witness:
  "worker_hosts (demo_args None (Some 1)) = Some ''a:1,b:2'' \<and>
   length (str_split ''a:1,b:2'' CHR '','') = 2 \<and>
   (\<exists>hosts. hosts \<noteq> [] \<and> length hosts = 2 \<and>
      environ (fst (main demo_api demo_globals (demo_args None (Some 1)) demo_world)) ''TF_CONFIG'' =
        Some (json_dumps (cluster_dict hosts (Some 1))))"
  using worker_list_nonempty [of "''a:1,b:2''" "demo_args None (Some 1)" demo_api demo_globals
      demo_world]
  by (simp add: demo_args_def numeral_2_eq_2)

subsection \<open>Statements that only append to the tracking calls\<close>

lemma appendsD:
  "appends m \<Longrightarrow> \<exists>new w' r. \<forall>T. m (w\<lparr>tracking := T\<rparr>) = (w'\<lparr>tracking := T @ new\<rparr>, r)"
  by (simp add: appends_def)

lemma appends_tracking:
  assumes "appends m"
  shows "\<exists>new. tracking (fst (m w)) = tracking w @ new"
proof -
  obtain new w' r where "\<And>T. m (w\<lparr>tracking := T\<rparr>) = (w'\<lparr>tracking := T @ new\<rparr>, r)"
    using appendsD [OF assms, of w] by blast
  from this [of "tracking w"] show ?thesis by auto
qed

lemma appends_upd:
  assumes "\<And>w T. upd (w\<lparr>tracking := T\<rparr>) = (upd w)\<lparr>tracking := T\<rparr>"
    and "\<And>w T. r (w\<lparr>tracking := T\<rparr>) = r w"
  shows "appends (\<lambda>w. (upd w, r w))"
  unfolding appends_def
proof
  fix w
  have "\<forall>T. (upd (w\<lparr>tracking := T\<rparr>), r (w\<lparr>tracking := T\<rparr>)) = ((upd w)\<lparr>tracking := T @ []\<rparr>, r w)"
    by (simp add: assms)
  then show "\<exists>new w' r'. \<forall>T. (upd (w\<lparr>tracking := T\<rparr>), r (w\<lparr>tracking := T\<rparr>)) =
      (w'\<lparr>tracking := T @ new\<rparr>, r')"
    by blast
qed

lemma appends_return: "appends (return_prog x)"
  unfolding return_prog_def by (rule appends_upd) simp_all

lemma appends_raise: "appends (raise_prog e)"
  unfolding raise_prog_def by (rule appends_upd) simp_all

lemma appends_log: "appends (\<lambda>w. (w\<lparr>tracking := tracking w @ [c]\<rparr>, Inr ()))"
  unfolding appends_def
proof
  fix w :: "'a world"
  have "\<forall>T. (w\<lparr>tracking := T\<rparr>\<lparr>tracking := tracking (w\<lparr>tracking := T\<rparr>) @ [c]\<rparr>, Inr ()) =
      (w\<lparr>tracking := T @ [c]\<rparr>, Inr ())"
    by simp
  then show "\<exists>new w' r. \<forall>T.
      (w\<lparr>tracking := T\<rparr>\<lparr>tracking := tracking (w\<lparr>tracking := T\<rparr>) @ [c]\<rparr>, Inr ()) =
      (w'\<lparr>tracking := T @ new\<rparr>, r)"
    by blast
qed

lemma appends_call: "appends (call op)"
  unfolding appends_def
proof
  fix w :: "'a world"
  show "\<exists>new w' r. \<forall>T. call op (w\<lparr>tracking := T\<rparr>) = (w'\<lparr>tracking := T @ new\<rparr>, r)"
  proof (cases "op (ext w)")
    case (Inl e)
    then have "\<forall>T. call op (w\<lparr>tracking := T\<rparr>) = (w\<lparr>tracking := T @ []\<rparr>, Inl e)"
      by (simp add: call_def)
    then show ?thesis by blast
  next
    case (Inr p)
    then have "\<forall>T. call op (w\<lparr>tracking := T\<rparr>) = (w\<lparr>ext := snd p\<rparr>\<lparr>tracking := T @ []\<rparr>, Inr (fst p))"
      by (cases p) (simp add: call_def)
    then show ?thesis by blast
  qed
qed

lemma appends_bind:
  assumes "appends m" and "\<And>x. appends (f x)"
  shows "appends (bind_prog m f)"
  unfolding appends_def
proof
  fix w
  obtain new w' r where m: "\<And>T. m (w\<lparr>tracking := T\<rparr>) = (w'\<lparr>tracking := T @ new\<rparr>, r)"
    using appendsD [OF assms(1), of w] by blast
  show "\<exists>new w' r. \<forall>T. bind_prog m f (w\<lparr>tracking := T\<rparr>) = (w'\<lparr>tracking := T @ new\<rparr>, r)"
  proof (cases r)
    case (Inl e)
    then have "\<forall>T. bind_prog m f (w\<lparr>tracking := T\<rparr>) = (w'\<lparr>tracking := T @ new\<rparr>, Inl e)"
      by (simp add: bind_prog_def m)
    then show ?thesis by blast
  next
    case (Inr x)
    obtain new' w'' r' where
      f: "\<And>T. f x (w'\<lparr>tracking := T\<rparr>) = (w''\<lparr>tracking := T @ new'\<rparr>, r')"
      using appendsD [OF assms(2), of x w'] by blast
    have "\<forall>T. bind_prog m f (w\<lparr>tracking := T\<rparr>) = (w''\<lparr>tracking := T @ (new @ new')\<rparr>, r')"
      using Inr f by (simp add: bind_prog_def m)
    then show ?thesis by blast
  qed
qed

lemma appends_if: "appends m \<Longrightarrow> appends n \<Longrightarrow> appends (if b then m else n)"
  by simp

lemma appends_for_each:
  assumes "\<And>x. appends (body x)"
  shows "appends (for_each xs body)"
  by (induction xs) (auto intro: assms appends_bind appends_return)

lemma appends_comet: "appends (comet c op)"
  unfolding comet_def by (intro appends_bind appends_log appends_call)

lemma appends_train_step: "appends (train_step api G inputs)"
  unfolding train_step_def compute_loss_def update_state_def
  by (cases inputs) (auto intro!: appends_bind appends_call appends_return appends_upd)

lemma appends_strategy_run: "appends (strategy_run api G xs)"
  by (induction xs) (auto intro!: appends_bind appends_return appends_train_step)

lemma appends_step_fn: "appends (step_fn api G x)"
  unfolding step_fn_def by (intro appends_bind appends_strategy_run appends_call)

lemma appends_batches_loop: "appends (batches_loop api G xs acc)"
  by (induction xs arbitrary: acc)
    (auto intro!: appends_bind appends_return appends_step_fn split: prod.splits)

lemma appends_log_train_loss: "appends (log_train_loss api t n i)"
  unfolding log_train_loss_def div_total_def
  by (auto intro!: appends_bind appends_return appends_raise appends_comet split: total.splits)

lemma appends_epoch: "appends (epoch api ds G tidx i)"
  unfolding epoch_def result_def print_def reset_states_def
  by (auto intro!: appends_bind appends_return appends_call appends_batches_loop
      appends_log_train_loss appends_upd split: prod.splits)

lemma appends_training: "appends (training api g tidx)"
proof -
  have strategy: "appends (\<lambda>w. call (MultiWorkerMirroredStrategy api (environ w)) w)"
    unfolding appends_def
  proof
    fix w :: "'a world"
    obtain new w' r where
      c: "\<And>T. call (MultiWorkerMirroredStrategy api (environ w)) (w\<lparr>tracking := T\<rparr>) =
            (w'\<lparr>tracking := T @ new\<rparr>, r)"
      using appendsD [OF appends_call, of "MultiWorkerMirroredStrategy api (environ w)" w]
      by blast
    then have "\<forall>T. call (MultiWorkerMirroredStrategy api (environ (w\<lparr>tracking := T\<rparr>)))
        (w\<lparr>tracking := T\<rparr>) = (w'\<lparr>tracking := T @ new\<rparr>, r)"
      by simp
    then show "\<exists>new w' r. \<forall>T.
        call (MultiWorkerMirroredStrategy api (environ (w\<lparr>tracking := T\<rparr>))) (w\<lparr>tracking := T\<rparr>) =
        (w'\<lparr>tracking := T @ new\<rparr>, r)"
      by blast
  qed
  have metric: "appends SparseCategoricalAccuracy"
    unfolding SparseCategoricalAccuracy_def by (rule appends_upd) simp_all
  show ?thesis
    unfolding training_def Let_def
    by (intro appends_bind appends_for_each strategy metric appends_call appends_epoch)
qed

lemma appends_open_experiment: "appends (open_experiment api a h)"
  unfolding open_experiment_def by (intro appends_bind appends_comet)

subsection \<open>The tracking session\<close>

lemma comet_Inr:
  "op (ext w) = Inr ((), s) \<Longrightarrow>
   comet c op w = (w\<lparr>tracking := tracking w @ [c], ext := s\<rparr>, Inr ())"
  by (simp add: comet_def bind_prog_def call_def)

lemma comet_tracking: "tracking (fst (comet c op w)) = tracking w @ [c]"
  by (simp add: comet_def bind_prog_def call_def split: sum.splits)

lemma comet_cases:
  obtains e where "comet c op w = (w\<lparr>tracking := tracking w @ [c]\<rparr>, Inl e)"
  | s where "comet c op w = (w\<lparr>tracking := tracking w @ [c], ext := s\<rparr>, Inr ())"
  by (cases "op (ext w)") (auto simp: comet_def bind_prog_def call_def)

lemma open_experiment_tracking:
  "\<exists>k. tracking (fst (open_experiment api a h w)) =
        tracking w @ NewExperiment PROJECT_NAME #
          take k [LogOther ''run_id'' (py_int_opt (run_id a)), LogOther ''worker_hosts'' (PyStr h)]"
proof -
  let ?c1 = "NewExperiment PROJECT_NAME"
  let ?c2 = "LogOther ''run_id'' (py_int_opt (run_id a))"
  let ?c3 = "LogOther ''worker_hosts'' (PyStr h)"
  let ?m1 = "comet ?c1 (Experiment api PROJECT_NAME)"
  let ?m2 = "comet ?c2 (log_other api ''run_id'' (py_int_opt (run_id a)))"
  let ?m3 = "comet ?c3 (log_other api ''worker_hosts'' (PyStr h))"
  have unfold: "open_experiment api a h = bind_prog ?m1 (\<lambda>_. bind_prog ?m2 (\<lambda>_. ?m3))"
    by (simp add: open_experiment_def)
  show ?thesis
  proof (cases rule: comet_cases [of ?c1 "Experiment api PROJECT_NAME" w])
    case (1 e)
    then have "tracking (fst (open_experiment api a h w)) = tracking w @ ?c1 # take 0 [?c2, ?c3]"
      by (simp add: unfold bind_prog_def)
    then show ?thesis by blast
  next
    case (2 s)
    let ?w1 = "w\<lparr>tracking := tracking w @ [?c1], ext := s\<rparr>"
    have step1: "open_experiment api a h w = bind_prog ?m2 (\<lambda>_. ?m3) ?w1"
      using 2 by (simp add: unfold bind_prog_def)
    show ?thesis
    proof (cases rule: comet_cases [of ?c2 "log_other api ''run_id'' (py_int_opt (run_id a))" ?w1])
      case (1 e)
      then have "tracking (fst (open_experiment api a h w)) = tracking w @ ?c1 # take 1 [?c2, ?c3]"
        by (simp add: step1 bind_prog_def)
      then show ?thesis by blast
    next
      case (2 s')
      then have "tracking (fst (open_experiment api a h w)) = tracking w @ ?c1 # take 2 [?c2, ?c3]"
        by (simp add: step1 bind_prog_def comet_tracking)
      then show ?thesis by blast
    qed
  qed
qed

lemma open_experiment_ok:
  assumes "Experiment api PROJECT_NAME (ext w) = Inr ((), s1)"
    and "log_other api ''run_id'' (py_int_opt (run_id a)) s1 = Inr ((), s2)"
    and "log_other api ''worker_hosts'' (PyStr h) s2 = Inr ((), s3)"
  shows "open_experiment api a h w =
         (w\<lparr>tracking := tracking w @
              [NewExperiment PROJECT_NAME, LogOther ''run_id'' (py_int_opt (run_id a)),
               LogOther ''worker_hosts'' (PyStr h)],
            ext := s3\<rparr>, Inr ())"
  using assms by (simp add: open_experiment_def comet_def bind_prog_def call_def)

lemma main_unfold:
  assumes "worker_hosts a = Some h"
  shows "main api g a w =
         bind_prog (if task_index a = Some 0 then open_experiment api a h else return_prog ())
           (\<lambda>_. training api g (task_index a))
           (w\<lparr>environ := (environ w)(''TF_CONFIG'' \<mapsto>
               json_dumps (cluster_dict (str_split h CHR '','') (task_index a)))\<rparr>)"
  using assms by (simp add: main_def Let_def putenv_def bind_prog_def)

lemma main_tracking_other:
  assumes "worker_hosts a = Some h" and "task_index a \<noteq> Some 0"
  shows "tracking (fst (main api g a w)) = tracking w"
proof -
  have "keeps tracking (training api g (task_index a))"
    using assms(2) by (intro blind_training blind_tracking disjI2)
  from keepsD [OF this] show ?thesis
    using assms by (simp add: main_unfold)
qed

lemma main_tracking_coordinator:
  assumes "worker_hosts a = Some h" and "task_index a = Some 0"
  shows "\<exists>k ms. sessions ms = [] \<and> metadata ms = [] \<and>
           tracking (fst (main api g a w)) =
             tracking w @ NewExperiment PROJECT_NAME #
               take k [LogOther ''run_id'' (py_int_opt (run_id a)), LogOther ''worker_hosts'' (PyStr h)]
               @ ms"
proof -
  let ?w0 = "w\<lparr>environ := (environ w)(''TF_CONFIG'' \<mapsto>
               json_dumps (cluster_dict (str_split h CHR '','') (task_index a)))\<rparr>"
  let ?two = "[LogOther ''run_id'' (py_int_opt (run_id a)), LogOther ''worker_hosts'' (PyStr h)]"
  have m: "main api g a w =
           bind_prog (open_experiment api a h) (\<lambda>_. training api g (Some 0)) ?w0"
    using assms by (simp add: main_unfold)
  obtain k where k: "tracking (fst (open_experiment api a h ?w0)) =
      tracking w @ NewExperiment PROJECT_NAME # take k ?two"
    using open_experiment_tracking [of api a h ?w0] by auto
  obtain w1 r where o: "open_experiment api a h ?w0 = (w1, r)"
    by (cases "open_experiment api a h ?w0")
  show ?thesis
  proof (cases r)
    case (Inl e)
    with m o have "main api g a w = (w1, Inl e)"
      by (simp add: bind_prog_def)
    with k o have "tracking (fst (main api g a w)) =
        tracking w @ NewExperiment PROJECT_NAME # take k ?two @ []"
      by simp
    then show ?thesis
      by (intro exI [of _ k] exI [of _ "[]"]) simp
  next
    case (Inr u)
    with m o have run: "main api g a w = training api g (Some 0) w1"
      by (simp add: bind_prog_def)
    define t1 where "t1 = tracking w1"
    define t2 where "t2 = tracking (fst (training api g (Some 0) w1))"
    have s: "sessions t2 = sessions t1"
      using keepsD [OF blind_training [OF blind_sessions(1,2) disjI1 [OF blind_sessions(3)]],
          of api g "Some 0" w1]
      by (simp add: t1_def t2_def)
    have d: "metadata t2 = metadata t1"
      using keepsD [OF blind_training [OF blind_metadata(1,2) disjI1 [OF blind_metadata(3)]],
          of api g "Some 0" w1]
      by (simp add: t1_def t2_def)
    have "\<exists>ms. t2 = t1 @ ms"
      unfolding t1_def t2_def by (rule appends_tracking [OF appends_training])
    then obtain ms where ms: "t2 = t1 @ ms" ..
    from s d ms have "sessions ms = []" "metadata ms = []"
      by (simp_all add: sessions_append metadata_append)
    moreover have "tracking (fst (main api g a w)) =
        tracking w @ NewExperiment PROJECT_NAME # take k ?two @ ms"
      using run ms k o by (simp add: t1_def t2_def)
    ultimately show ?thesis by blast
  qed
qed

lemma metadata_take_two:
  "metadata (take k [LogOther k1 v1, LogOther k2 v2]) = take k [(k1, v1), (k2, v2)]"
proof (cases k)
  case 0
  then show ?thesis by simp
next
  case (Suc j)
  then show ?thesis by (cases j) simp_all
qed

lemma sessions_take_two: "sessions (take k [LogOther k1 v1, LogOther k2 v2]) = []"
proof (cases k)
  case 0
  then show ?thesis by simp
next
  case (Suc j)
  then show ?thesis by (cases j) simp_all
qed

lemma main_metadata_ok:
  assumes "worker_hosts a = Some h" and "task_index a = Some 0"
    and "Experiment api PROJECT_NAME (ext w) = Inr ((), s1)"
    and "log_other api ''run_id'' (py_int_opt (run_id a)) s1 = Inr ((), s2)"
    and "log_other api ''worker_hosts'' (PyStr h) s2 = Inr ((), s3)"
  shows "metadata (tracking (fst (main api g a w))) =
         metadata (tracking w) @ [(''run_id'', py_int_opt (run_id a)), (''worker_hosts'', PyStr h)]"
proof -
  let ?w0 = "w\<lparr>environ := (environ w)(''TF_CONFIG'' \<mapsto>
               json_dumps (cluster_dict (str_split h CHR '','') (task_index a)))\<rparr>"
  let ?w1 = "?w0\<lparr>tracking := tracking ?w0 @
              [NewExperiment PROJECT_NAME, LogOther ''run_id'' (py_int_opt (run_id a)),
               LogOther ''worker_hosts'' (PyStr h)],
            ext := s3\<rparr>"
  have "open_experiment api a h ?w0 = (?w1, Inr ())"
    by (rule open_experiment_ok [where ?s1.0 = s1 and ?s2.0 = s2]) (simp_all add: assms)
  then have "main api g a w = training api g (Some 0) ?w1"
    using assms(1,2) by (simp add: main_unfold bind_prog_def)
  moreover have "metadata (tracking (fst (training api g (Some 0) ?w1))) = metadata (tracking ?w1)"
    by (rule keepsD [OF blind_training [OF blind_metadata(1,2) disjI1 [OF blind_metadata(3)]]])
  ultimately show ?thesis
    by (simp add: metadata_append)
qed

text \<open>
  Claim C3. On a run that was given the worker hosts, a tracking session is opened
  exactly when the parsed task index is 0, with the project name of the script: a
  worker with another index (or none) makes no call to the tracking service at all.
  The session never receives a metadata field other than \<^verbatim>\<open>run_id\<close> and
  \<^verbatim>\<open>worker_hosts\<close>, in this order, and when the session opens and accepts them it
  receives exactly these two, holding the values of the flags.
\<close>

theorem tracking_session_on_coordinator:
  assumes "worker_hosts a = Some h"
  shows "sessions (tracking (fst (main api g a w))) =
           sessions (tracking w) @ (if task_index a = Some 0 then [PROJECT_NAME] else []) \<and>
         (task_index a \<noteq> Some 0 \<longrightarrow> tracking (fst (main api g a w)) = tracking w) \<and>
         (\<exists>k. metadata (tracking (fst (main api g a w))) =
            metadata (tracking w) @
              take k [(''run_id'', py_int_opt (run_id a)), (''worker_hosts'', PyStr h)]) \<and>
         (task_index a = Some 0 \<and>
          Experiment api PROJECT_NAME (ext w) = Inr ((), s1) \<and>
          log_other api ''run_id'' (py_int_opt (run_id a)) s1 = Inr ((), s2) \<and>
          log_other api ''worker_hosts'' (PyStr h) s2 = Inr ((), s3) \<longrightarrow>
          metadata (tracking (fst (main api g a w))) =
            metadata (tracking w) @
              [(''run_id'', py_int_opt (run_id a)), (''worker_hosts'', PyStr h)])"
proof (cases "task_index a = Some 0")
  case True
  obtain k ms where ms: "sessions ms = []" "metadata ms = []"
    and t: "tracking (fst (main api g a w)) =
             tracking w @ NewExperiment PROJECT_NAME #
               take k [LogOther ''run_id'' (py_int_opt (run_id a)), LogOther ''worker_hosts'' (PyStr h)]
               @ ms"
    using main_tracking_coordinator [OF assms True, of api g w] by blast
  have "sessions (tracking (fst (main api g a w))) = sessions (tracking w) @ [PROJECT_NAME]"
    by (simp add: t sessions_append sessions_take_two ms)
  moreover have "metadata (tracking (fst (main api g a w))) =
      metadata (tracking w) @
        take k [(''run_id'', py_int_opt (run_id a)), (''worker_hosts'', PyStr h)]"
    by (simp add: t metadata_append metadata_take_two ms)
  moreover have "metadata (tracking (fst (main api g a w))) =
      metadata (tracking w) @ [(''run_id'', py_int_opt (run_id a)), (''worker_hosts'', PyStr h)]"
    if "Experiment api PROJECT_NAME (ext w) = Inr ((), s1)"
      and "log_other api ''run_id'' (py_int_opt (run_id a)) s1 = Inr ((), s2)"
      and "log_other api ''worker_hosts'' (PyStr h) s2 = Inr ((), s3)"
    using that by (rule main_metadata_ok [OF assms True])
  ultimately show ?thesis
    using True by (intro conjI impI exI [of _ k]) simp_all
next
  case False
  have "tracking (fst (main api g a w)) = tracking w"
    by (rule main_tracking_other [OF assms False])
  moreover have "metadata (tracking w) =
      metadata (tracking w) @
        take 0 [(''run_id'', py_int_opt (run_id a)), (''worker_hosts'', PyStr h)]"
    by simp
  ultimately show ?thesis
    using False by (intro conjI impI exI [of _ 0]) simp_all
qed

text \<open>On the demonstration libraries: worker 0 with run id 7, and worker 1.\<close>

theorem tracking_session_on_coordinator_witness:
  "worker_hosts (demo_args (Some 7) (Some 0)) = Some ''a:1,b:2'' \<and>
   sessions (tracking (fst (main demo_api demo_globals (demo_args (Some 7) (Some 0)) demo_world))) =
     [''tf-distributed-multiworker-mirrored''] \<and>
   metadata (tracking (fst (main demo_api demo_globals (demo_args (Some 7) (Some 0)) demo_world))) =
     [(''run_id'', PyInt 7), (''worker_hosts'', PyStr ''a:1,b:2'')] \<and>
   tracking (fst (main demo_api demo_globals (demo_args (Some 7) (Some 1)) demo_world)) = []"
proof -
  have h0: "worker_hosts (demo_args (Some 7) (Some 0)) = Some ''a:1,b:2''"
    and h1: "worker_hosts (demo_args (Some 7) (Some 1)) = Some ''a:1,b:2''"
    by (simp_all add: demo_args_def)
  show ?thesis
    using tracking_session_on_coordinator [OF h0, of demo_api demo_globals demo_world 0 0 0]
      tracking_session_on_coordinator [OF h1, of demo_api demo_globals demo_world 0 0 0]
    by (simp add: demo_args_def demo_api_def demo_world_def py_int_opt_def PROJECT_NAME_def)
qed

subsection \<open>One epoch, step by step\<close>

lemma epoch_run:
  "epoch api ds G tidx i w =
     (case iterate api ds (ext w) of
        Inl e \<Rightarrow> (w, Inl e)
      | Inr (batches, s) \<Rightarrow>
          (case batches_loop api G batches (IntZero, 0) (w\<lparr>ext := s\<rparr>) of
             (w1, Inl e) \<Rightarrow> (w1, Inl e)
           | (w1, Inr (total_loss, num_batches)) \<Rightarrow>
               (case (if tidx = Some 0 then log_train_loss api total_loss num_batches i
                      else return_prog ()) w1 of
                  (w2, Inl e) \<Rightarrow> (w2, Inl e)
                | (w2, Inr u) \<Rightarrow>
                    (w2\<lparr>stdout := stdout w2 @
                          [finished_line api i (metric_result api (train_accuracy w2))],
                        train_accuracy := []\<rparr>, Inr ()))))"
  by (simp add: epoch_def bind_prog_def call_def result_def print_def reset_states_def
      split: sum.splits prod.splits)

lemma epoch_InrE:
  assumes "epoch api ds G tidx i w = (w', Inr u)"
  obtains batches s w1 total_loss num_batches w2 where
    "iterate api ds (ext w) = Inr (batches, s)"
    "batches_loop api G batches (IntZero, 0) (w\<lparr>ext := s\<rparr>) = (w1, Inr (total_loss, num_batches))"
    "(if tidx = Some 0 then log_train_loss api total_loss num_batches i else return_prog ()) w1 =
       (w2, Inr ())"
    "w' = w2\<lparr>stdout := stdout w2 @ [finished_line api i (metric_result api (train_accuracy w2))],
              train_accuracy := []\<rparr>"
  using assms unfolding epoch_run
  by (auto split: sum.splits prod.splits)

lemma keeps_log_or_skip:
  assumes "\<And>w s. sel (w\<lparr>ext := s\<rparr>) = sel w" and "ignores_metrics sel \<or> tidx \<noteq> Some 0"
  shows "keeps sel (if tidx = Some 0 then log_train_loss api t n i else return_prog ())"
  using assms by (auto intro!: keeps_log_train_loss keeps_return)

lemma batches_loop_stdout:
  "stdout (fst (batches_loop api G batches acc w)) = stdout w"
  by (rule keepsD [OF blind_batches_loop [OF blind_stdout(1)]])

lemma log_or_skip_stdout:
  "stdout (fst ((if tidx = Some 0 then log_train_loss api t n i else return_prog ()) w)) =
   stdout w"
  by (rule keepsD [OF keeps_log_or_skip [OF _ disjI1 [OF blind_stdout(2)]]]) simp

lemma epoch_stdout:
  "(\<exists>e. snd (epoch api ds G tidx i w) = Inl e \<and>
        stdout (fst (epoch api ds G tidx i w)) = stdout w) \<or>
   (snd (epoch api ds G tidx i w) = Inr () \<and>
    (\<exists>acc. stdout (fst (epoch api ds G tidx i w)) = stdout w @ [finished_line api i acc]))"
proof (cases "iterate api ds (ext w)")
  case (Inl e)
  then show ?thesis by (simp add: epoch_run)
next
  case (Inr p)
  obtain batches s where p: "p = (batches, s)" by (cases p)
  obtain w1 r1 where b: "batches_loop api G batches (IntZero, 0) (w\<lparr>ext := s\<rparr>) = (w1, r1)"
    by (cases "batches_loop api G batches (IntZero, 0) (w\<lparr>ext := s\<rparr>)")
  have s1: "stdout w1 = stdout w"
    using batches_loop_stdout [of api G batches "(IntZero, 0)" "w\<lparr>ext := s\<rparr>"] b by simp
  show ?thesis
  proof (cases r1)
    case (Inl e)
    then show ?thesis using Inr p b s1 by (simp add: epoch_run)
  next
    case r1: (Inr acc)
    obtain total_loss num_batches where acc: "acc = (total_loss, num_batches)" by (cases acc)
    let ?log = "if tidx = Some 0 then log_train_loss api total_loss num_batches i
                else return_prog ()"
    obtain w2 r2 where l: "?log w1 = (w2, r2)" by (cases "?log w1")
    have s2: "stdout w2 = stdout w"
      using log_or_skip_stdout [of tidx api total_loss num_batches i w1] l s1 by simp
    show ?thesis
    proof (cases r2)
      case (Inl e)
      then show ?thesis using Inr p b r1 acc l s2 by (simp add: epoch_run)
    next
      case r2: (Inr u)
      have "epoch api ds G tidx i w =
          (w2\<lparr>stdout := stdout w2 @ [finished_line api i (metric_result api (train_accuracy w2))],
             train_accuracy := []\<rparr>, Inr ())"
        using Inr p b r1 acc l r2 by (simp add: epoch_run)
      then show ?thesis using s2 by auto
    qed
  qed
qed

text \<open>The lines printed by the epochs \<open>js\<close>: one per epoch that was completed.\<close>

lemma epochs_stdout:
  "\<exists>accs. length accs \<le> length js \<and>
     (snd (for_each js (epoch api ds G tidx) w) = Inr () \<longrightarrow> length accs = length js) \<and>
     stdout (fst (for_each js (epoch api ds G tidx) w)) =
       stdout w @ map (\<lambda>(i, acc). finished_line api i acc) (zip js accs)"
proof (induction js arbitrary: w)
  case Nil
  show ?case by (simp add: return_prog_def)
next
  case (Cons j js)
  obtain w1 r1 where e: "epoch api ds G tidx j w = (w1, r1)"
    by (cases "epoch api ds G tidx j w")
  show ?case
  proof (cases r1)
    case (Inl err)
    then have "stdout w1 = stdout w"
      using epoch_stdout [of api ds G tidx j w] e by auto
    with Inl e have "for_each (j # js) (epoch api ds G tidx) w = (w1, Inl err)"
      "stdout w1 = stdout w @ map (\<lambda>(i, acc). finished_line api i acc) (zip (j # js) [])"
      by (simp_all add: bind_prog_def)
    then show ?thesis
      by (intro exI [of _ "[]"]) simp
  next
    case (Inr u)
    then obtain acc where acc: "stdout w1 = stdout w @ [finished_line api j acc]"
      using epoch_stdout [of api ds G tidx j w] e by auto
    have run: "for_each (j # js) (epoch api ds G tidx) w = for_each js (epoch api ds G tidx) w1"
      using e Inr by (simp add: bind_prog_def)
    obtain accs where accs: "length accs \<le> length js"
      "snd (for_each js (epoch api ds G tidx) w1) = Inr () \<longrightarrow> length accs = length js"
      "stdout (fst (for_each js (epoch api ds G tidx) w1)) =
         stdout w1 @ map (\<lambda>(i, acc). finished_line api i acc) (zip js accs)"
      using Cons.IH [of w1] by blast
    show ?thesis
      unfolding run using accs acc by (intro exI [of _ "acc # accs"]) simp
  qed
qed

subsection \<open>Runs on the demonstration libraries\<close>

lemma demo_train_step:
  "train_step demo_api G (imgs, y) w =
     (w\<lparr>train_accuracy := train_accuracy w @ [(y, actual_pred (map (\<lambda>_. demo_logits) imgs))],
        ext := Suc (ext w)\<rparr>,
      Inr (Finite (of_nat (length y))))"
  by (simp add: train_step_def compute_loss_def bind_prog_def call_def update_state_def
      return_prog_def demo_api_def)

lemma demo_step_fn:
  "step_fn demo_api G [(imgs, y)] w =
     (w\<lparr>train_accuracy := train_accuracy w @ [(y, actual_pred (map (\<lambda>_. demo_logits) imgs))],
        ext := Suc (ext w)\<rparr>,
      Inr (Finite (of_nat (length y))))"
proof -
  have "strategy_reduce demo_api [l] s = Inr (l, s)" for l s
    by (simp add: demo_api_def)
  then show ?thesis
    by (simp add: step_fn_def bind_prog_def call_def return_prog_def demo_train_step)
qed

lemma demo_iterate:
  "iterate demo_api (dataset_fn demo_globals G) s =
     Inr ([[([[[[Finite 0], [Finite 1]]]], [3])]], s)"
  by (simp add: demo_api_def dataset_fn_def demo_globals_def)

lemma demo_arith:
  "tf_add demo_api (Finite 0) (Finite 1) = Finite 1"
  "tf_truediv demo_api (Finite 1) (Suc 0) = Finite 1"
  "log_metric demo_api name v i s = Inr ((), s)"
  by (simp_all add: demo_api_def)

lemma demo_epoch:
  "epoch demo_api (dataset_fn demo_globals G) G tidx i w =
     (w\<lparr>tracking := tracking w @
           (if tidx = Some 0 then [LogMetric ''train_loss'' (Finite 1) i] else []),
        stdout := stdout w @
           [finished_line demo_api i
              (metric_result demo_api
                 (train_accuracy w @ [([3], actual_pred [demo_logits])]))],
        train_accuracy := [],
        ext := Suc (ext w)\<rparr>,
      Inr ())"
  by (simp add: epoch_run demo_iterate demo_step_fn bind_prog_def return_prog_def add_total_def
      log_train_loss_def div_total_def comet_def call_def demo_arith)

lemma demo_epochs_return:
  "snd (for_each js (epoch demo_api (dataset_fn demo_globals G) G tidx) w) = Inr ()"
  by (induction js arbitrary: w) (simp_all add: return_prog_def bind_prog_def demo_epoch)

lemma demo_strategy:
  "env ''TF_CONFIG'' \<noteq> None \<Longrightarrow> MultiWorkerMirroredStrategy demo_api env s = Inr (1, s)"
  by (auto simp: demo_api_def)

lemma demo_setup:
  "Sequential demo_api layers s = Inr ((), s)"
  "Adam demo_api s = Inr ((), s)"
  "distribute_datasets_from_function demo_api ds s = Inr ((), s)"
  "Experiment demo_api p s = Inr ((), s)"
  "log_other demo_api k v s = Inr ((), s)"
  by (simp_all add: demo_api_def)

lemma demo_training_returns:
  "environ w ''TF_CONFIG'' \<noteq> None \<Longrightarrow> snd (training demo_api demo_globals tidx w) = Inr ()"
  by (simp add: training_def Let_def bind_prog_def call_def demo_strategy demo_setup
      SparseCategoricalAccuracy_def demo_epochs_return split: prod.splits sum.splits)

lemma demo_main_returns:
  "snd (main demo_api demo_globals (demo_args rid idx) w) = Inr ()"
  by (simp add: main_def Let_def demo_args_def putenv_def bind_prog_def open_experiment_def
      comet_def call_def demo_setup return_prog_def demo_training_returns)

subsection \<open>The training as a whole\<close>

lemma training_cases:
  obtains (fail) w1 e where "training api g tidx w = (w1, Inl e)"
      "stdout w1 = stdout w" "tracking w1 = tracking w" "environ w1 = environ w"
  | (loop) w1 n where
      "training api g tidx w =
         for_each [0..<EPOCHS]
           (epoch api (dataset_fn g (BATCH_SIZE_PER_REPLICA * n)) (BATCH_SIZE_PER_REPLICA * n) tidx)
           w1"
      "stdout w1 = stdout w" "tracking w1 = tracking w" "environ w1 = environ w"
      "train_accuracy w1 = []"
proof (cases "MultiWorkerMirroredStrategy api (environ w) (ext w)")
  case (Inl e)
  then have "training api g tidx w = (w, Inl e)"
    by (simp add: training_def bind_prog_def call_def)
  then show ?thesis by (rule fail) simp_all
next
  case (Inr p)
  obtain n s1 where p: "p = (n, s1)" by (cases p)
  let ?G = "BATCH_SIZE_PER_REPLICA * n"
  let ?tail = "bind_prog (call (Sequential api build_model)) (\<lambda>_.
     bind_prog (call (Adam api)) (\<lambda>_.
     bind_prog SparseCategoricalAccuracy (\<lambda>_.
     bind_prog (call (distribute_datasets_from_function api (dataset_fn g ?G))) (\<lambda>_.
     for_each [0..<EPOCHS] (epoch api (dataset_fn g ?G) ?G tidx)))))"
  have t: "training api g tidx w = ?tail (w\<lparr>ext := s1\<rparr>)"
    using Inr p by (simp add: training_def bind_prog_def call_def Let_def)
  show ?thesis
  proof (cases "Sequential api build_model s1")
    case (Inl e)
    then have "training api g tidx w = (w\<lparr>ext := s1\<rparr>, Inl e)"
      by (simp add: t bind_prog_def call_def)
    then show ?thesis by (rule fail) simp_all
  next
    case s2: (Inr p2)
    show ?thesis
    proof (cases "Adam api (snd p2)")
      case (Inl e)
      then have "training api g tidx w = (w\<lparr>ext := snd p2\<rparr>, Inl e)"
        using s2 by (cases p2) (simp add: t bind_prog_def call_def)
      then show ?thesis by (rule fail) simp_all
    next
      case s3: (Inr p3)
      show ?thesis
      proof (cases "distribute_datasets_from_function api (dataset_fn g ?G) (snd p3)")
        case (Inl e)
        then have "training api g tidx w =
            (w\<lparr>train_accuracy := [], ext := snd p3\<rparr>, Inl e)"
          using s2 s3 by (cases p2, cases p3)
            (simp add: t bind_prog_def call_def SparseCategoricalAccuracy_def)
        then show ?thesis by (rule fail) simp_all
      next
        case s4: (Inr p4)
        have "training api g tidx w =
            for_each [0..<EPOCHS] (epoch api (dataset_fn g ?G) ?G tidx)
              (w\<lparr>train_accuracy := [], ext := snd p4\<rparr>)"
          using s2 s3 s4 by (cases p2, cases p3, cases p4)
            (simp add: t bind_prog_def call_def SparseCategoricalAccuracy_def)
        then show ?thesis by (rule loop) simp_all
      qed
    qed
  qed
qed

lemma keeps_open_experiment_stdout: "keeps stdout (open_experiment api a h)"
  unfolding open_experiment_def comet_def
  by (intro keeps_bind keeps_call keeps_update) simp_all

lemma training_stdout:
  "\<exists>accs. length accs \<le> EPOCHS \<and>
     (snd (training api g tidx w) = Inr () \<longrightarrow> length accs = EPOCHS) \<and>
     stdout (fst (training api g tidx w)) =
       stdout w @ map (\<lambda>(i, acc). finished_line api i acc) (zip [0..<EPOCHS] accs)"
proof (cases rule: training_cases [of api g tidx w])
  case (fail w1 e)
  then show ?thesis by (intro exI [of _ "[]"]) simp
next
  case (loop w1 n)
  show ?thesis
    using epochs_stdout [of "[0..<EPOCHS]" api "dataset_fn g (BATCH_SIZE_PER_REPLICA * n)"
        "BATCH_SIZE_PER_REPLICA * n" tidx w1] loop(1,2)
    by simp
qed

lemma main_stdout:
  "\<exists>accs. length accs \<le> EPOCHS \<and>
     (snd (main api g a w) = Inr () \<longrightarrow> length accs = EPOCHS) \<and>
     stdout (fst (main api g a w)) =
       stdout w @ map (\<lambda>(i, acc). finished_line api i acc) (zip [0..<EPOCHS] accs)"
proof (cases "worker_hosts a")
  case None
  then have "main api g a w = (w, Inl AttributeError)"
    by (simp add: main_def raise_prog_def)
  then show ?thesis by (intro exI [of _ "[]"]) simp
next
  case (Some h)
  let ?w0 = "w\<lparr>environ := (environ w)(''TF_CONFIG'' \<mapsto>
               json_dumps (cluster_dict (str_split h CHR '','') (task_index a)))\<rparr>"
  let ?pre = "if task_index a = Some 0 then open_experiment api a h else return_prog ()"
  have m: "main api g a w = bind_prog ?pre (\<lambda>_. training api g (task_index a)) ?w0"
    by (rule main_unfold [OF Some])
  obtain w1 r where pre: "?pre ?w0 = (w1, r)" by (cases "?pre ?w0")
  have "keeps stdout ?pre"
    by (intro keeps_if keeps_open_experiment_stdout keeps_return)
  from keepsD [OF this, of ?w0] pre have s1: "stdout w1 = stdout w" by simp
  show ?thesis
  proof (cases r)
    case (Inl e)
    then have "main api g a w = (w1, Inl e)"
      using m pre by (simp add: bind_prog_def)
    then show ?thesis using s1 by (intro exI [of _ "[]"]) simp
  next
    case (Inr u)
    then have "main api g a w = training api g (task_index a) w1"
      using m pre by (simp add: bind_prog_def)
    then show ?thesis
      using training_stdout [of api g "task_index a" w1] s1 by simp
  qed
qed

text \<open>
  Claim C7. Whatever the flags, the dataset and the libraries' behaviour, \<^verbatim>\<open>main\<close>
  completes at most 10 epochs, numbered 0 to 9 in this order, each printing its one
  line; and a run of \<^verbatim>\<open>main\<close> that returns has completed exactly 10.
\<close>

theorem ten_epochs:
  "\<exists>accs. length accs \<le> 10 \<and>
     (snd (main api g a w) = Inr () \<longrightarrow> length accs = 10) \<and>
     stdout (fst (main api g a w)) =
       stdout w @ map (\<lambda>(i, acc). finished_line api i acc) (zip [0..<10] accs)"
  using main_stdout [of api g a w] by (simp add: EPOCHS_def)

text \<open>On the demonstration libraries the run returns and has printed ten lines.\<close>

theorem ten_epochs_witness:
  "snd (main demo_api demo_globals (demo_args (Some 7) (Some 0)) demo_world) = Inr () \<and>
   length (stdout (fst (main demo_api demo_globals (demo_args (Some 7) (Some 0)) demo_world))) = 10"
  using ten_epochs [of demo_api demo_globals "demo_args (Some 7) (Some 0)" demo_world]
    demo_main_returns [of "Some 7" "Some 0" demo_world]
  by (auto simp: demo_world_def)

subsection \<open>The loss logged for an epoch\<close>

lemma foldl_add_total_tensor:
  "foldl (add_total api) (TensorTotal t) ls = TensorTotal (foldl (tf_add api) t ls)"
  by (induction ls arbitrary: t) (simp_all add: add_total_def)

lemma foldl_add_total_zero:
  "ls \<noteq> [] \<Longrightarrow>
   foldl (add_total api) IntZero ls = TensorTotal (foldl (tf_add api) (Finite 0) ls)"
  by (cases ls) (simp_all add: add_total_def foldl_add_total_tensor)

lemma batches_loop_result:
  assumes "batches_loop api G bs (t, n) w = (w', Inr (t', n'))"
  shows "n' = n + length bs \<and> length (step_losses api G bs w) = length bs \<and>
         t' = foldl (add_total api) t (step_losses api G bs w)"
  using assms
proof (induction bs arbitrary: t n w)
  case Nil
  then show ?case by (simp add: return_prog_def)
next
  case (Cons x xs)
  from Cons.prems obtain w1 loss where
    step: "step_fn api G x w = (w1, Inr loss)" and
    rest: "batches_loop api G xs (add_total api t loss, n + 1) w1 = (w', Inr (t', n'))"
    by (auto elim!: bind_InrE)
  from Cons.IH [OF rest] step show ?case by simp
qed

lemma batches_loop_tracking: "tracking (fst (batches_loop api G bs acc w)) = tracking w"
  by (rule keepsD [OF blind_batches_loop [OF blind_tracking(1)]])

lemma log_train_loss_Inr:
  assumes "log_train_loss api t n i w = (w', Inr u)"
  shows "(t = IntZero \<longrightarrow> n \<noteq> 0) \<and>
         tracking w' = tracking w @
           [LogMetric ''train_loss''
              (case t of IntZero \<Rightarrow> Finite 0 | TensorTotal x \<Rightarrow> tf_truediv api x n) i]"
proof (cases t)
  case IntZero
  show ?thesis
  proof (cases "n = 0")
    case True
    with IntZero assms show ?thesis
      by (simp add: log_train_loss_def div_total_def raise_prog_def bind_prog_def)
  next
    case False
    with IntZero assms have "comet (LogMetric ''train_loss'' (Finite 0) i)
        (log_metric api ''train_loss'' (Finite 0) i) w = (w', Inr u)"
      by (simp add: log_train_loss_def div_total_def)
    then have "tracking w' = tracking w @ [LogMetric ''train_loss'' (Finite 0) i]"
      using comet_tracking [of "LogMetric ''train_loss'' (Finite 0) i"
          "log_metric api ''train_loss'' (Finite 0) i" w] by simp
    with IntZero False show ?thesis by simp
  qed
next
  case (TensorTotal x)
  with assms have "comet (LogMetric ''train_loss'' (tf_truediv api x n) i)
      (log_metric api ''train_loss'' (tf_truediv api x n) i) w = (w', Inr u)"
    by (simp add: log_train_loss_def div_total_def)
  then have "tracking w' = tracking w @ [LogMetric ''train_loss'' (tf_truediv api x n) i]"
    using comet_tracking [of "LogMetric ''train_loss'' (tf_truediv api x n) i"
        "log_metric api ''train_loss'' (tf_truediv api x n) i" w] by simp
  with TensorTotal show ?thesis by simp
qed

lemma epoch_train_loss:
  assumes it: "iterate api ds (ext w) = Inr (batches, s)"
    and ep: "epoch api ds G (Some 0) i w = (w', Inr ())"
  shows "batches \<noteq> [] \<and>
         length (step_losses api G batches (w\<lparr>ext := s\<rparr>)) = length batches \<and>
         tracking w' = tracking w @
           [LogMetric ''train_loss''
              (tf_truediv api
                 (foldl (tf_add api) (Finite 0) (step_losses api G batches (w\<lparr>ext := s\<rparr>)))
                 (length batches)) i]"
proof -
  let ?ls = "step_losses api G batches (w\<lparr>ext := s\<rparr>)"
  from ep obtain w1 t n w2 where
    loop: "batches_loop api G batches (IntZero, 0) (w\<lparr>ext := s\<rparr>) = (w1, Inr (t, n))" and
    log: "log_train_loss api t n i w1 = (w2, Inr ())" and
    w': "w' = w2\<lparr>stdout := stdout w2 @ [finished_line api i (metric_result api (train_accuracy w2))],
                 train_accuracy := []\<rparr>"
    using it by (auto elim!: epoch_InrE)
  from batches_loop_result [OF loop]
  have n: "n = length batches" and len: "length ?ls = length batches"
    and t: "t = foldl (add_total api) IntZero ?ls"
    by simp_all
  have t1: "tracking w1 = tracking w"
    using batches_loop_tracking [of api G batches "(IntZero, 0)" "w\<lparr>ext := s\<rparr>"] loop by simp
  note l = log_train_loss_Inr [OF log]
  have ne: "batches \<noteq> []"
  proof
    assume "batches = []"
    with t n len have "t = IntZero" "n = 0" by simp_all
    with l show False by simp
  qed
  then have "?ls \<noteq> []" using len by auto
  then have "t = TensorTotal (foldl (tf_add api) (Finite 0) ?ls)"
    using t by (simp add: foldl_add_total_zero)
  with l t1 n w' len ne show ?thesis by simp
qed

lemma epochs_metric_tags:
  assumes "for_each js (epoch api ds G (Some 0)) w = (w', Inr ())"
  shows "metric_tags (tracking w') =
         metric_tags (tracking w) @ map (\<lambda>i. (''train_loss'', i)) js"
  using assms
proof (induction js arbitrary: w)
  case Nil
  then show ?case by (simp add: return_prog_def)
next
  case (Cons j js)
  from Cons.prems obtain w1 where
    e: "epoch api ds G (Some 0) j w = (w1, Inr ())" and
    rest: "for_each js (epoch api ds G (Some 0)) w1 = (w', Inr ())"
    by (auto elim!: bind_InrE)
  from e obtain batches s where "iterate api ds (ext w) = Inr (batches, s)"
    by (auto elim!: epoch_InrE)
  from epoch_train_loss [OF this e] obtain v where
    "tracking w1 = tracking w @ [LogMetric ''train_loss'' v j]"
    by blast
  with Cons.IH [OF rest] show ?case
    by (simp add: metric_tags_append)
qed

lemma main_metric_tags:
  assumes h: "worker_hosts a = Some h" and i: "task_index a = Some 0"
    and run: "main api g a w = (w', Inr ())"
  shows "metric_tags (tracking w') =
         metric_tags (tracking w) @ map (\<lambda>i. (''train_loss'', i)) [0..<EPOCHS]"
proof -
  let ?w0 = "w\<lparr>environ := (environ w)(''TF_CONFIG'' \<mapsto>
               json_dumps (cluster_dict (str_split h CHR '','') (task_index a)))\<rparr>"
  from run obtain w1 where
    o: "open_experiment api a h ?w0 = (w1, Inr ())" and
    t: "training api g (Some 0) w1 = (w', Inr ())"
    using main_unfold [OF h, of api g w] i by (auto elim!: bind_InrE)
  obtain k where "tracking w1 = tracking w @ NewExperiment PROJECT_NAME #
      take k [LogOther ''run_id'' (py_int_opt (run_id a)), LogOther ''worker_hosts'' (PyStr h)]"
    using open_experiment_tracking [of api a h ?w0] o by auto
  then have m1: "metric_tags (tracking w1) = metric_tags (tracking w)"
    by (cases k rule: nat.exhaust [case_names z s])
      (auto simp: metric_tags_append take_Cons' split: if_splits)
  show ?thesis
  proof (cases rule: training_cases [of api g "Some 0" w1])
    case (fail w2 e)
    with t show ?thesis by simp
  next
    case (loop w2 n)
    with t have "for_each [0..<EPOCHS]
        (epoch api (dataset_fn g (BATCH_SIZE_PER_REPLICA * n)) (BATCH_SIZE_PER_REPLICA * n)
           (Some 0)) w2 = (w', Inr ())"
      by simp
    from epochs_metric_tags [OF this] loop(3) m1 show ?thesis by simp
  qed
qed

text \<open>
  Claim C4. On worker 0, every epoch that completes makes exactly one call to the
  tracking service: the metric \<^verbatim>\<open>train_loss\<close>, tagged with the index of the epoch,
  whose value is the sum of the losses that \<^verbatim>\<open>step_fn\<close> returned for the batches of the
  epoch (added in order, starting from 0, with the framework's addition) divided by
  the number of these batches, which is not zero. A run of \<^verbatim>\<open>main\<close> that returns has
  logged one such metric for each of the epochs 0 to 9, in order, and no other metric.
\<close>

theorem train_loss_logged_each_epoch:
  "(iterate api ds (ext w) = Inr (batches, s) \<and> epoch api ds G (Some 0) i w = (w', Inr ()) \<longrightarrow>
      batches \<noteq> [] \<and>
      length (step_losses api G batches (w\<lparr>ext := s\<rparr>)) = length batches \<and>
      tracking w' = tracking w @
        [LogMetric ''train_loss''
           (tf_truediv api
              (foldl (tf_add api) (Finite 0) (step_losses api G batches (w\<lparr>ext := s\<rparr>)))
              (length batches)) i]) \<and>
   (worker_hosts a = Some h \<and> task_index a = Some 0 \<and> main api g a w0 = (w1, Inr ()) \<longrightarrow>
      metric_tags (tracking w1) =
        metric_tags (tracking w0) @ map (\<lambda>i. (''train_loss'', i)) [0..<10])"
proof (intro conjI impI)
  assume "iterate api ds (ext w) = Inr (batches, s) \<and> epoch api ds G (Some 0) i w = (w', Inr ())"
  then have it: "iterate api ds (ext w) = Inr (batches, s)"
    and ep: "epoch api ds G (Some 0) i w = (w', Inr ())"
    by simp_all
  note r = epoch_train_loss [OF it ep]
  from r show "batches \<noteq> []" by simp
  from r show "length (step_losses api G batches (w\<lparr>ext := s\<rparr>)) = length batches" by simp
  from r show "tracking w' = tracking w @
        [LogMetric ''train_loss''
           (tf_truediv api
              (foldl (tf_add api) (Finite 0) (step_losses api G batches (w\<lparr>ext := s\<rparr>)))
              (length batches)) i]" by simp
next
  assume "worker_hosts a = Some h \<and> task_index a = Some 0 \<and> main api g a w0 = (w1, Inr ())"
  then have "metric_tags (tracking w1) =
      metric_tags (tracking w0) @ map (\<lambda>i. (''train_loss'', i)) [0..<EPOCHS]"
    by (intro main_metric_tags [where a = a and h = h and api = api and g = g]) simp_all
  then show "metric_tags (tracking w1) =
      metric_tags (tracking w0) @ map (\<lambda>i. (''train_loss'', i)) [0..<10]"
    by (simp add: EPOCHS_def)
qed

text \<open>
  On the demonstration libraries: epoch 3 from the initial state logs the mean 1 of
  its single loss 1, and the whole run logs the ten metrics.
\<close>

theorem train_loss_logged_each_epoch_witness:
  "iterate demo_api (dataset_fn demo_globals 64) (ext demo_world) =
     Inr ([[([[[[Finite 0], [Finite 1]]]], [3])]], 0) \<and>
   snd (epoch demo_api (dataset_fn demo_globals 64) 64 (Some 0) 3 demo_world) = Inr () \<and>
   tracking (fst (epoch demo_api (dataset_fn demo_globals 64) 64 (Some 0) 3 demo_world)) =
     [LogMetric ''train_loss'' (Finite 1) 3] \<and>
   worker_hosts (demo_args (Some 7) (Some 0)) = Some ''a:1,b:2'' \<and>
   task_index (demo_args (Some 7) (Some 0)) = Some 0 \<and>
   snd (main demo_api demo_globals (demo_args (Some 7) (Some 0)) demo_world) = Inr () \<and>
   metric_tags (tracking (fst (main demo_api demo_globals (demo_args (Some 7) (Some 0)) demo_world))) =
     map (\<lambda>i. (''train_loss'', i)) [0..<10]"
proof -
  let ?ds = "dataset_fn demo_globals 64"
  let ?batches = "[[([[[[Finite 0], [Finite 1]]]], [3::8 word])]]"
  let ?a = "demo_args (Some 7) (Some 0)"
  have it: "iterate demo_api ?ds (ext demo_world) = Inr (?batches, 0)"
    by (simp add: demo_iterate demo_world_def)
  have ep: "epoch demo_api ?ds 64 (Some 0) 3 demo_world =
      (fst (epoch demo_api ?ds 64 (Some 0) 3 demo_world), Inr ())"
    by (simp add: demo_epoch)
  have run: "main demo_api demo_globals ?a demo_world =
      (fst (main demo_api demo_globals ?a demo_world), Inr ())"
    using demo_main_returns [of "Some 7" "Some 0" demo_world] by (simp add: prod_eq_iff)
  have losses: "step_losses demo_api 64 ?batches (demo_world\<lparr>ext := 0\<rparr>) = [Finite 1]"
    by (simp add: demo_step_fn)
  have flags: "worker_hosts ?a = Some ''a:1,b:2''" "task_index ?a = Some 0"
    by (simp_all add: demo_args_def)
  have returns: "snd (epoch demo_api ?ds 64 (Some 0) 3 demo_world) = Inr ()"
    "snd (main demo_api demo_globals ?a demo_world) = Inr ()"
    by (simp_all add: demo_epoch demo_main_returns)
  have "tracking (fst (epoch demo_api ?ds 64 (Some 0) 3 demo_world)) =
      [LogMetric ''train_loss'' (Finite 1) 3] \<and>
    metric_tags (tracking (fst (main demo_api demo_globals ?a demo_world))) =
      map (\<lambda>i. (''train_loss'', i)) [0..<10]"
    using train_loss_logged_each_epoch [of demo_api ?ds demo_world ?batches 0 64 3
        "fst (epoch demo_api ?ds 64 (Some 0) 3 demo_world)" ?a "''a:1,b:2''" demo_globals
        demo_world "fst (main demo_api demo_globals ?a demo_world)"]
      it ep run flags losses
    by (simp add: demo_arith demo_world_def)
  with it returns flags show ?thesis
    by simp
qed

subsection \<open>The updates fed to the accuracy metric\<close>

lemma feedsD:
  "feeds m \<Longrightarrow>
   \<exists>new w' r. \<forall>M. m (w\<lparr>train_accuracy := M\<rparr>) = (w'\<lparr>train_accuracy := M @ new\<rparr>, r)"
  by (simp add: feeds_def)

lemma feeds_return: "feeds (return_prog x)"
  unfolding feeds_def return_prog_def
proof
  fix w :: "'a world"
  have "\<forall>M. (w\<lparr>train_accuracy := M\<rparr>, Inr x) = (w\<lparr>train_accuracy := M @ []\<rparr>, Inr x)"
    by simp
  then show "\<exists>new w' r. \<forall>M. (w\<lparr>train_accuracy := M\<rparr>, Inr x) = (w'\<lparr>train_accuracy := M @ new\<rparr>, r)"
    by blast
qed

lemma feeds_update_state: "feeds (update_state y p)"
  unfolding feeds_def update_state_def
proof
  fix w :: "'a world"
  have "\<forall>M. (w\<lparr>train_accuracy := M\<rparr>
        \<lparr>train_accuracy := train_accuracy (w\<lparr>train_accuracy := M\<rparr>) @ [(y, p)]\<rparr>, Inr ()) =
      (w\<lparr>train_accuracy := M @ [(y, p)]\<rparr>, Inr ())"
    by simp
  then show "\<exists>new w' r. \<forall>M.
      (w\<lparr>train_accuracy := M\<rparr>
        \<lparr>train_accuracy := train_accuracy (w\<lparr>train_accuracy := M\<rparr>) @ [(y, p)]\<rparr>, Inr ()) =
      (w'\<lparr>train_accuracy := M @ new\<rparr>, r)"
    by blast
qed

lemma feeds_call: "feeds (call op)"
  unfolding feeds_def
proof
  fix w :: "'a world"
  show "\<exists>new w' r. \<forall>M. call op (w\<lparr>train_accuracy := M\<rparr>) = (w'\<lparr>train_accuracy := M @ new\<rparr>, r)"
  proof (cases "op (ext w)")
    case (Inl e)
    then have "\<forall>M. call op (w\<lparr>train_accuracy := M\<rparr>) = (w\<lparr>train_accuracy := M @ []\<rparr>, Inl e)"
      by (simp add: call_def)
    then show ?thesis by blast
  next
    case (Inr p)
    then have "\<forall>M. call op (w\<lparr>train_accuracy := M\<rparr>) =
        (w\<lparr>ext := snd p\<rparr>\<lparr>train_accuracy := M @ []\<rparr>, Inr (fst p))"
      by (cases p) (simp add: call_def)
    then show ?thesis by blast
  qed
qed

lemma feeds_bind:
  assumes "feeds m" and "\<And>x. feeds (f x)"
  shows "feeds (bind_prog m f)"
  unfolding feeds_def
proof
  fix w
  obtain new w' r where
    m: "\<And>M. m (w\<lparr>train_accuracy := M\<rparr>) = (w'\<lparr>train_accuracy := M @ new\<rparr>, r)"
    using feedsD [OF assms(1), of w] by blast
  show "\<exists>new w' r. \<forall>M.
      bind_prog m f (w\<lparr>train_accuracy := M\<rparr>) = (w'\<lparr>train_accuracy := M @ new\<rparr>, r)"
  proof (cases r)
    case (Inl e)
    then have "\<forall>M. bind_prog m f (w\<lparr>train_accuracy := M\<rparr>) =
        (w'\<lparr>train_accuracy := M @ new\<rparr>, Inl e)"
      by (simp add: bind_prog_def m)
    then show ?thesis by blast
  next
    case (Inr x)
    obtain new' w'' r' where
      f: "\<And>M. f x (w'\<lparr>train_accuracy := M\<rparr>) = (w''\<lparr>train_accuracy := M @ new'\<rparr>, r')"
      using feedsD [OF assms(2), of x w'] by blast
    have "\<forall>M. bind_prog m f (w\<lparr>train_accuracy := M\<rparr>) =
        (w''\<lparr>train_accuracy := M @ (new @ new')\<rparr>, r')"
      using Inr f by (simp add: bind_prog_def m)
    then show ?thesis by blast
  qed
qed

lemma feeds_train_step: "feeds (train_step api G inputs)"
  unfolding train_step_def compute_loss_def
  by (cases inputs) (auto intro!: feeds_bind feeds_call feeds_return feeds_update_state)

lemma feeds_strategy_run: "feeds (strategy_run api G xs)"
  by (induction xs) (auto intro!: feeds_bind feeds_return feeds_train_step)

lemma feeds_step_fn: "feeds (step_fn api G x)"
  unfolding step_fn_def by (intro feeds_bind feeds_strategy_run feeds_call)

lemma feeds_batches_loop: "feeds (batches_loop api G xs acc)"
  by (induction xs arbitrary: acc)
    (auto intro!: feeds_bind feeds_return feeds_step_fn split: prod.splits)

text \<open>After the batches the metric holds what it held before and the updates of the epoch.\<close>

lemma batches_loop_updates:
  "train_accuracy (fst (batches_loop api G batches (IntZero, 0) w)) =
   train_accuracy w @ epoch_updates api G batches w"
proof -
  obtain new w' r where
    f: "\<And>M. batches_loop api G batches (IntZero, 0) (w\<lparr>train_accuracy := M\<rparr>) =
          (w'\<lparr>train_accuracy := M @ new\<rparr>, r)"
    using feedsD [OF feeds_batches_loop, of api G batches "(IntZero, 0)" w] by blast
  from f [of "train_accuracy w"] f [of "[]"] show ?thesis
    by (simp add: epoch_updates_def)
qed

lemma train_step_update:
  assumes "model_call api images (ext w) = Inr (pred, s)"
    and "train_step api G (images, y) w = (w', Inr loss)"
  shows "train_accuracy w' = train_accuracy w @ [(y, actual_pred pred)]"
  using assms
  by (auto simp: train_step_def compute_loss_def bind_prog_def call_def update_state_def
      return_prog_def split: sum.splits prod.splits)

lemma actual_pred_indicator:
  "actual_pred pred = map (map (\<lambda>x. if tf_greater x (Finite (1 / 2)) then 1 else 0)) pred"
  by (simp add: actual_pred_def cast_int64_def)

lemma actual_pred_shape: "map length (actual_pred pred) = map length pred"
  by (simp add: actual_pred_def)

lemma actual_pred_bits: "row \<in> set (actual_pred pred) \<Longrightarrow> v \<in> set row \<Longrightarrow> v = 0 \<or> v = 1"
  by (auto simp: actual_pred_def cast_int64_def)

text \<open>
  Claim C10. In every training step that completes, the value passed to
  \<^verbatim>\<open>train_accuracy.update_state\<close> with the labels is, for the logits \<open>pred\<close> that the
  model returned in this step, the tensor of the same shape holding 1 where a logit is
  greater than 0.5 and 0 elsewhere (0 also for NaN), as int64: one 0/1 entry per logit
  and example, not one class index per example. The logits are the raw outputs of the
  last layer, \<^verbatim>\<open>Dense(10)\<close> without activation.
\<close>

theorem accuracy_fed_threshold_indicator:
  "(model_call api images (ext w) = Inr (pred, s) \<and>
    train_step api G (images, y) w = (w', Inr loss) \<longrightarrow>
      train_accuracy w' = train_accuracy w @
        [(y, map (map (\<lambda>x. if tf_greater x (Finite (1 / 2)) then 1 else 0)) pred)]) \<and>
   map length (actual_pred pred) = map length pred \<and>
   (\<forall>row \<in> set (actual_pred pred). \<forall>v \<in> set row. v = 0 \<or> v = 1) \<and>
   tf_greater (Finite q) (Finite (1 / 2)) = (1 / 2 < q) \<and>
   \<not> tf_greater NaN (Finite (1 / 2)) \<and>
   last build_model = Dense 10 None"
proof (intro conjI impI ballI)
  assume "model_call api images (ext w) = Inr (pred, s) \<and>
    train_step api G (images, y) w = (w', Inr loss)"
  then have "model_call api images (ext w) = Inr (pred, s)"
    and "train_step api G (images, y) w = (w', Inr loss)"
    by simp_all
  then have "train_accuracy w' = train_accuracy w @ [(y, actual_pred pred)]"
    by (rule train_step_update)
  then show "train_accuracy w' = train_accuracy w @
      [(y, map (map (\<lambda>x. if tf_greater x (Finite (1 / 2)) then 1 else 0)) pred)]"
    by (simp add: actual_pred_indicator)
next
  show "map length (actual_pred pred) = map length pred"
    by (rule actual_pred_shape)
next
  fix row v
  assume "row \<in> set (actual_pred pred)" and "v \<in> set row"
  then show "v = 0 \<or> v = 1"
    by (rule actual_pred_bits)
next
  show "tf_greater (Finite q) (Finite (1 / 2)) = (1 / 2 < q)" by simp
  show "\<not> tf_greater NaN (Finite (1 / 2))" by simp
  show "last build_model = Dense 10 None" by (simp add: build_model_def)
qed

text \<open>
  On the demonstration libraries: ten logits, four of them above 0.5, give four ones;
  the logit 0.5 itself and NaN give 0.
\<close>

theorem accuracy_fed_threshold_indicator_witness:
  "model_call demo_api [[[[Finite 0], [Finite 1]]]] (ext demo_world) = Inr ([demo_logits], 1) \<and>
   snd (train_step demo_api 64 ([[[[Finite 0], [Finite 1]]]], [3]) demo_world) = Inr (Finite 1) \<and>
   train_accuracy (fst (train_step demo_api 64 ([[[[Finite 0], [Finite 1]]]], [3]) demo_world)) =
     [([3], [[0, 1, 0, 0, 1, 0, 0, 1, 0, 1]])] \<and>
   [0, 1, 0, 0, 1, 0, 0, 1, 0, 1] \<in> set (actual_pred [demo_logits]) \<and>
   map length (actual_pred [demo_logits]) = [10]"
proof -
  let ?images = "[[[[Finite 0], [Finite 1]]]]"
  let ?w' = "fst (train_step demo_api 64 (?images, [3]) demo_world)"
  have call: "model_call demo_api ?images (ext demo_world) = Inr ([demo_logits], 1)"
    by (simp add: demo_api_def demo_world_def)
  have step: "train_step demo_api 64 (?images, [3]) demo_world = (?w', Inr (Finite 1))"
    by (simp add: demo_train_step)
  have res: "snd (train_step demo_api 64 (?images, [3]) demo_world) = Inr (Finite 1)"
    by (simp add: demo_train_step)
  have logits: "map (map (\<lambda>x. if tf_greater x (Finite (1 / 2)) then 1 else (0::64 word)))
      [demo_logits] = [[0, 1, 0, 0, 1, 0, 0, 1, 0, 1]]"
    by (simp add: demo_logits_def)
  have mem: "[0, 1, 0, 0, 1, 0, 0, 1, 0, 1] \<in> set (actual_pred [demo_logits])"
    using logits by (simp add: actual_pred_indicator)
  note inst = accuracy_fed_threshold_indicator [of demo_api ?images demo_world "[demo_logits]" 1
      64 "[3]" ?w' "Finite 1" 0]
  from inst call step have "train_accuracy ?w' = train_accuracy demo_world @
      [([3], map (map (\<lambda>x. if tf_greater x (Finite (1 / 2)) then 1 else 0)) [demo_logits])]"
    by blast
  then have upd: "train_accuracy ?w' = [([3], [[0, 1, 0, 0, 1, 0, 0, 1, 0, 1]])]"
    by (simp only: logits) (simp add: demo_world_def)
  from inst have "map length (actual_pred [demo_logits]) = [10]"
    by (simp add: demo_logits_def)
  with call res upd mem show ?thesis
    by blast
qed

subsection \<open>The reset of the metric\<close>

lemma log_or_skip_train_accuracy:
  "train_accuracy (fst ((if tidx = Some 0 then log_train_loss api t n i else return_prog ()) w)) =
   train_accuracy w"
proof -
  have "ignores_metrics (train_accuracy :: 'a world \<Rightarrow> _)"
    by (simp add: ignores_metrics_def)
  then show ?thesis
    by (intro keepsD [OF keeps_log_or_skip] disjI1) simp_all
qed

lemma epoch_accuracy:
  assumes it: "iterate api ds (ext w) = Inr (batches, s)"
    and ep: "epoch api ds G tidx i w = (w', Inr ())"
  shows "stdout w' = stdout w @
           [finished_line api i
              (metric_result api (train_accuracy w @ epoch_updates api G batches (w\<lparr>ext := s\<rparr>)))]"
    and "train_accuracy w' = []"
proof -
  from ep obtain w1 t n w2 where
    loop: "batches_loop api G batches (IntZero, 0) (w\<lparr>ext := s\<rparr>) = (w1, Inr (t, n))" and
    log: "(if tidx = Some 0 then log_train_loss api t n i else return_prog ()) w1 = (w2, Inr ())" and
    w': "w' = w2\<lparr>stdout := stdout w2 @ [finished_line api i (metric_result api (train_accuracy w2))],
                 train_accuracy := []\<rparr>"
    using it by (auto elim!: epoch_InrE)
  have "train_accuracy w1 = train_accuracy w @ epoch_updates api G batches (w\<lparr>ext := s\<rparr>)"
    using batches_loop_updates [of api G batches "w\<lparr>ext := s\<rparr>"] loop by simp
  moreover have "train_accuracy w2 = train_accuracy w1"
    using log_or_skip_train_accuracy [of tidx api t n i w1] log by simp
  moreover have "stdout w1 = stdout w"
    using batches_loop_stdout [of api G batches "(IntZero, 0)" "w\<lparr>ext := s\<rparr>"] loop by simp
  moreover have "stdout w2 = stdout w1"
    using log_or_skip_stdout [of tidx api t n i w1] log by simp
  ultimately show "stdout w' = stdout w @
           [finished_line api i
              (metric_result api (train_accuracy w @ epoch_updates api G batches (w\<lparr>ext := s\<rparr>)))]"
    by (simp add: w')
  show "train_accuracy w' = []"
    by (simp add: w')
qed

lemma epochs_end_reset:
  assumes "train_accuracy w = []" and "for_each js (epoch api ds G tidx) w = (w', Inr ())"
  shows "train_accuracy w' = []"
  using assms
proof (induction js arbitrary: w)
  case Nil
  then show ?case by (simp add: return_prog_def)
next
  case (Cons j js)
  from Cons.prems(2) obtain w1 where
    e: "epoch api ds G tidx j w = (w1, Inr ())" and
    rest: "for_each js (epoch api ds G tidx) w1 = (w', Inr ())"
    by (auto elim!: bind_InrE)
  from e obtain batches s where "iterate api ds (ext w) = Inr (batches, s)"
    by (auto elim!: epoch_InrE)
  from epoch_accuracy(2) [OF this e] have "train_accuracy w1 = []" .
  from Cons.IH [OF this rest] show ?case .
qed

lemma training_starts_reset:
  "\<exists>w1 n. train_accuracy w1 = [] \<and>
     (snd (training api g tidx w) = Inr () \<longrightarrow>
        training api g tidx w =
          for_each [0..<EPOCHS]
            (epoch api (dataset_fn g (BATCH_SIZE_PER_REPLICA * n))
               (BATCH_SIZE_PER_REPLICA * n) tidx) w1)"
proof (cases rule: training_cases [of api g tidx w])
  case (fail w1 e)
  then show ?thesis
    by (intro exI [of _ "w\<lparr>train_accuracy := []\<rparr>"] exI [of _ 0]) simp
next
  case (loop w1 n)
  then show ?thesis
    by (intro exI [of _ w1] exI [of _ n]) simp
qed

text \<open>
  Claim C9. An epoch that completes prints the value of the accuracy metric and then
  resets it: the value printed is computed from what the metric held when the epoch
  began followed by the updates of this epoch's steps, and the metric is empty
  afterwards. The epoch loop of \<^verbatim>\<open>main\<close> starts with the metric just created, empty,
  and every sequence of completed epochs that starts with it empty ends with it empty
  (so each epoch of the loop begins with an empty metric, the state in which an epoch
  begins being the one in which the epochs before it ended, \<open>for_each_append\<close>).
  Hence the accuracy printed for an epoch is that of this epoch's updates alone.
\<close>

theorem accuracy_reset_every_epoch:
  "(iterate api ds (ext w) = Inr (batches, s) \<and> epoch api ds G tidx i w = (w', Inr ()) \<longrightarrow>
      stdout w' = stdout w @
        [finished_line api i
           (metric_result api (train_accuracy w @ epoch_updates api G batches (w\<lparr>ext := s\<rparr>)))] \<and>
      (train_accuracy w = [] \<longrightarrow>
         stdout w' = stdout w @
           [finished_line api i
              (metric_result api (epoch_updates api G batches (w\<lparr>ext := s\<rparr>)))]) \<and>
      train_accuracy w' = []) \<and>
   (train_accuracy w0 = [] \<and> for_each js (epoch api ds G tidx) w0 = (w1, Inr ()) \<longrightarrow>
      train_accuracy w1 = []) \<and>
   (\<exists>w2 n. train_accuracy w2 = [] \<and>
      (snd (training api g tidx w3) = Inr () \<longrightarrow>
         training api g tidx w3 =
           for_each [0..<EPOCHS]
             (epoch api (dataset_fn g (BATCH_SIZE_PER_REPLICA * n))
                (BATCH_SIZE_PER_REPLICA * n) tidx) w2))"
proof (intro conjI impI)
  assume a: "iterate api ds (ext w) = Inr (batches, s) \<and> epoch api ds G tidx i w = (w', Inr ())"
  then have it: "iterate api ds (ext w) = Inr (batches, s)"
    and ep: "epoch api ds G tidx i w = (w', Inr ())"
    by simp_all
  show line: "stdout w' = stdout w @
        [finished_line api i
           (metric_result api (train_accuracy w @ epoch_updates api G batches (w\<lparr>ext := s\<rparr>)))]"
    by (rule epoch_accuracy(1) [OF it ep])
  show "train_accuracy w' = []"
    by (rule epoch_accuracy(2) [OF it ep])
  assume "train_accuracy w = []"
  with line show "stdout w' = stdout w @
           [finished_line api i
              (metric_result api (epoch_updates api G batches (w\<lparr>ext := s\<rparr>)))]"
    by simp
next
  assume "train_accuracy w0 = [] \<and> for_each js (epoch api ds G tidx) w0 = (w1, Inr ())"
  then have "train_accuracy w0 = []" and "for_each js (epoch api ds G tidx) w0 = (w1, Inr ())"
    by simp_all
  then show "train_accuracy w1 = []"
    by (rule epochs_end_reset)
next
  show "\<exists>w2 n. train_accuracy w2 = [] \<and>
      (snd (training api g tidx w3) = Inr () \<longrightarrow>
         training api g tidx w3 =
           for_each [0..<EPOCHS]
             (epoch api (dataset_fn g (BATCH_SIZE_PER_REPLICA * n))
                (BATCH_SIZE_PER_REPLICA * n) tidx) w2)"
    by (rule training_starts_reset)
qed

lemma demo_line: "finished_line demo_api 3 (Finite 1) = ''Finished epoch 3, accuracy is ?.''"
  unfolding finished_line_def demo_api_def by code_simp

text \<open>
  On the demonstration libraries, whose accuracy value is the number of updates held:
  epoch 3 from the initial state prints the value 1 and leaves the metric empty; so do
  the epochs 0 and 1 in sequence; and the training is the epoch loop from an empty metric.
\<close>

theorem accuracy_reset_every_epoch_witness:
  "iterate demo_api (dataset_fn demo_globals 64) (ext demo_world) =
     Inr ([[([[[[Finite 0], [Finite 1]]]], [3])]], 0) \<and>
   snd (epoch demo_api (dataset_fn demo_globals 64) 64 (Some 0) 3 demo_world) = Inr () \<and>
   train_accuracy demo_world = [] \<and>
   stdout (fst (epoch demo_api (dataset_fn demo_globals 64) 64 (Some 0) 3 demo_world)) =
     [''Finished epoch 3, accuracy is ?.''] \<and>
   train_accuracy (fst (epoch demo_api (dataset_fn demo_globals 64) 64 (Some 0) 3 demo_world)) = [] \<and>
   snd (for_each [0, 1] (epoch demo_api (dataset_fn demo_globals 64) 64 (Some 0)) demo_world) =
     Inr () \<and>
   train_accuracy
     (fst (for_each [0, 1] (epoch demo_api (dataset_fn demo_globals 64) 64 (Some 0)) demo_world)) =
     [] \<and>
   snd (training demo_api demo_globals (Some 0)
          (demo_world\<lparr>environ := [''TF_CONFIG'' \<mapsto> ''{}'']\<rparr>)) = Inr () \<and>
   (\<exists>w2 n. train_accuracy w2 = [] \<and>
      training demo_api demo_globals (Some 0) (demo_world\<lparr>environ := [''TF_CONFIG'' \<mapsto> ''{}'']\<rparr>) =
        for_each [0..<EPOCHS]
          (epoch demo_api (dataset_fn demo_globals (BATCH_SIZE_PER_REPLICA * n))
             (BATCH_SIZE_PER_REPLICA * n) (Some 0)) w2)"
proof -
  let ?ds = "dataset_fn demo_globals 64"
  let ?batches = "[[([[[[Finite 0], [Finite 1]]]], [3::8 word])]]"
  let ?e = "epoch demo_api ?ds 64 (Some 0) 3 demo_world"
  let ?l = "for_each [0, 1] (epoch demo_api ?ds 64 (Some 0)) demo_world"
  let ?w3 = "demo_world\<lparr>environ := [''TF_CONFIG'' \<mapsto> ''{}'']\<rparr>"
  have it: "iterate demo_api ?ds (ext demo_world) = Inr (?batches, 0)"
    by (simp add: demo_iterate demo_world_def)
  have e_ret: "snd ?e = Inr ()"
    by (simp add: demo_epoch)
  then have ep: "?e = (fst ?e, Inr ())"
    by (simp add: prod_eq_iff)
  have l_ret: "snd ?l = Inr ()"
    by (rule demo_epochs_return)
  then have lp: "?l = (fst ?l, Inr ())"
    by (simp add: prod_eq_iff)
  have empty: "train_accuracy demo_world = []"
    by (simp add: demo_world_def)
  have t_ret: "snd (training demo_api demo_globals (Some 0) ?w3) = Inr ()"
    by (rule demo_training_returns) simp
  have upd: "epoch_updates demo_api 64 ?batches (demo_world\<lparr>ext := 0\<rparr>) =
      [([3], actual_pred [demo_logits])]"
    by (simp add: epoch_updates_def demo_step_fn bind_prog_def return_prog_def demo_world_def)
  note inst = accuracy_reset_every_epoch [where api = demo_api and ds = ?ds and w = demo_world
      and batches = ?batches and s = 0 and G = 64 and tidx = "Some 0" and i = 3
      and w' = "fst ?e" and ?w0.0 = demo_world and js = "[0, 1]" and ?w1.0 = "fst ?l"
      and g = demo_globals and ?w3.0 = ?w3]
  from inst it ep empty have "stdout (fst ?e) = stdout demo_world @
      [finished_line demo_api 3 (metric_result demo_api (epoch_updates demo_api 64 ?batches
         (demo_world\<lparr>ext := 0\<rparr>)))]"
    and m1: "train_accuracy (fst ?e) = []"
    by blast+
  then have line: "stdout (fst ?e) = [''Finished epoch 3, accuracy is ?.'']"
    using demo_line by (simp add: upd) (simp add: demo_api_def demo_world_def)
  from inst lp empty have m2: "train_accuracy (fst ?l) = []"
    by blast
  from inst t_ret have "\<exists>w2 n. train_accuracy w2 = [] \<and>
      training demo_api demo_globals (Some 0) ?w3 =
        for_each [0..<EPOCHS]
          (epoch demo_api (dataset_fn demo_globals (BATCH_SIZE_PER_REPLICA * n))
             (BATCH_SIZE_PER_REPLICA * n) (Some 0)) w2"
    by blast
  with it e_ret empty line m1 l_ret m2 t_ret show ?thesis
    by blast
qed

subsection \<open>Normalising the pixels\<close>

declare bitlen.simps [simp del]

lemma bitlen_mono: "a \<le> b \<Longrightarrow> bitlen a \<le> bitlen b"
proof (induction a arbitrary: b rule: bitlen.induct)
  case (1 n)
  show ?case
  proof (cases "n = 0")
    case True
    then show ?thesis by (subst bitlen.simps) simp
  next
    case False
    with "1.prems" have b: "b \<noteq> 0" and half: "n div 2 \<le> b div 2"
      by (auto intro: div_le_mono)
    from "1.IH" [OF False half] have "bitlen (n div 2) \<le> bitlen (b div 2)" .
    then show ?thesis
      using False b by (subst bitlen.simps, subst (2) bitlen.simps) simp
  qed
qed

lemma pow2_pos: "0 < pow2 k"
  by (simp add: pow2_def)

lemma floor_log2_unit:
  assumes "0 < q" and "q \<le> 1"
  shows "floor_log2 q \<le> 0"
proof -
  obtain a b where ab: "quotient_of q = (a, b)" by (cases "quotient_of q")
  then have b: "0 < b" and q: "q = of_int a / of_int b"
    by (auto dest: quotient_of_denom_pos quotient_of_div)
  from assms q b have "0 < a" "a \<le> b"
    by (simp_all add: zero_less_divide_iff divide_le_eq)
  then have "nat a \<le> nat b" by simp
  then have "bitlen (nat a) \<le> bitlen (nat b)" by (rule bitlen_mono)
  then show ?thesis
    by (simp add: floor_log2_def ab Let_def)
qed

lemma round_half_even_nonneg: "0 \<le> x \<Longrightarrow> 0 \<le> round_half_even x"
  by (auto simp: round_half_even_def Let_def)

lemma round_half_even_le_int:
  assumes "x \<le> of_int N"
  shows "round_half_even x \<le> N"
proof -
  have f: "\<lfloor>x\<rfloor> \<le> N" using assms by (simp add: floor_le_iff)
  have "\<lfloor>x\<rfloor> + 1 \<le> N" if "0 < x - of_int \<lfloor>x\<rfloor>"
  proof -
    from that have "of_int \<lfloor>x\<rfloor> < x" by simp
    with assms have "(of_int \<lfloor>x\<rfloor> :: rat) < of_int N" by linarith
    then show ?thesis by simp
  qed
  with f show ?thesis
    by (auto simp: round_half_even_def Let_def)
qed

lemma round_half_even_near: "\<bar>of_int (round_half_even x) - x\<bar> \<le> 1 / 2"
proof -
  have "of_int \<lfloor>x\<rfloor> \<le> x" "x < of_int \<lfloor>x\<rfloor> + 1"
    by linarith+
  then show ?thesis
    by (auto simp: round_half_even_def Let_def abs_le_iff)
qed

lemma f32_of_rat_unit:
  assumes "0 \<le> q" and "q \<le> 1"
  shows "\<exists>r. f32_of_rat q = Finite r \<and> 0 \<le> r \<and> r \<le> 1 \<and> \<bar>r - q\<bar> \<le> 1 / 2 ^ 24"
proof (cases "q = 0")
  case True
  then show ?thesis by (simp add: f32_of_rat_def)
next
  case False
  with assms have pos: "0 < q" by simp
  define e where "e = max (floor_log2 q) (- 126)"
  define k where "k = nat (23 - e)"
  define m where "m = round_half_even (q * 2 ^ k)"
  define r where "r = of_int m / (2 ^ k :: rat)"
  have e: "e \<le> 0" using floor_log2_unit [OF pos assms(2)] by (simp add: e_def)
  then have k: "23 \<le> k" by (simp add: k_def)
  have ulp: "pow2 (e - 23) = 1 / 2 ^ k"
    using e by (simp add: pow2_def k_def)
  have "q * 2 ^ k \<le> of_int (2 ^ k)"
    using assms(2) by (simp add: mult_le_cancel_right1)
  then have m_le: "m \<le> 2 ^ k" unfolding m_def by (rule round_half_even_le_int)
  have m_ge: "0 \<le> m"
    unfolding m_def using assms(1) by (intro round_half_even_nonneg) simp
  have r0: "0 \<le> r" using m_ge by (simp add: r_def)
  have "(of_int m :: rat) \<le> of_int (2 ^ k)" using m_le by (simp only: of_int_le_iff)
  then have r1: "r \<le> 1" by (simp add: r_def divide_le_eq)
  have "\<bar>of_int m - q * 2 ^ k\<bar> \<le> 1 / 2"
    unfolding m_def by (rule round_half_even_near)
  then have "\<bar>of_int m - q * 2 ^ k\<bar> / 2 ^ k \<le> (1 / 2) / 2 ^ k"
    by (intro divide_right_mono) simp_all
  moreover have "\<bar>of_int m - q * 2 ^ k\<bar> / 2 ^ k = \<bar>r - q\<bar>"
  proof -
    have "r - q = (of_int m - q * 2 ^ k) / 2 ^ k"
      by (simp add: r_def diff_divide_distrib)
    moreover have "\<bar>(2 :: rat) ^ k\<bar> = 2 ^ k"
      by simp
    ultimately show ?thesis
      by (simp only: abs_divide)
  qed
  moreover have "(1 / 2) / 2 ^ k \<le> (1 / 2 ^ 24 :: rat)"
  proof -
    have "(2 :: rat) ^ 24 \<le> 2 ^ Suc k" using k by (intro power_increasing) simp_all
    then have "1 / (2 :: rat) ^ Suc k \<le> 1 / 2 ^ 24"
      by (intro divide_left_mono) simp_all
    then show ?thesis by simp
  qed
  ultimately have near: "\<bar>r - q\<bar> \<le> 1 / 2 ^ 24" by (simp only:)
  have "\<not> pow2 128 \<le> r" using r1 by (simp add: pow2_def)
  moreover have "of_int (round_half_even (\<bar>q\<bar> / pow2 (e - 23))) * pow2 (e - 23) = r"
    using pos by (simp add: ulp r_def m_def)
  ultimately have "f32_of_rat q = Finite r"
    using pos False by (simp add: f32_of_rat_def Let_def e_def [symmetric])
  with r0 r1 near show ?thesis by blast
qed

lemma normalize_pixel:
  "\<exists>r. np_true_divide v 255 = Finite r \<and> 0 \<le> r \<and> r \<le> 1 \<and>
       \<bar>r - of_nat (unat v) / 255\<bar> \<le> 1 / 2 ^ 24"
proof -
  have "unat v < 2 ^ 8" using unsigned_less [of v] by simp
  then have "unat v \<le> 255" by simp
  then have "(of_nat (unat v) :: rat) \<le> of_nat 255"
    by (simp only: of_nat_le_iff)
  then have le: "(of_nat (unat v) / 255 :: rat) \<le> 1"
    by (simp del: of_nat_unat)
  have ge: "0 \<le> (of_nat (unat v) / 255 :: rat)"
    by (intro divide_nonneg_nonneg) (simp_all only: of_nat_0_le_iff zero_le_numeral)
  from f32_of_rat_unit [OF ge le] show ?thesis
    by (simp only: np_true_divide_def)
qed

lemma normalize_pixel_unit: "in_unit_interval (np_true_divide v 255)"
  using normalize_pixel [of v] by auto

lemma normalize_unit:
  assumes "img \<in> set (normalize imgs)" and "row \<in> set img" and "px \<in> set row" and "x \<in> set px"
  shows "in_unit_interval x"
  using assms by (auto simp: normalize_def normalize_pixel_unit)

lemma module_init_Inr:
  assumes "module_init api w = (w', Inr g)"
  obtains tr te where "train_images g = normalize (new_axis tr)"
    and "test_images g = normalize (new_axis te)"
  using assms
  by (auto simp: module_init_def putenv_def bind_prog_def call_def return_prog_def Let_def
      split: sum.splits prod.splits)

lemma demo_pixels:
  "np_true_divide 0 255 = Finite 0"
  "np_true_divide 255 255 = Finite 1"
  "np_true_divide 128 255 = Finite (8421505 / 16777216)"
  by code_simp+

lemma demo_module_init: "snd (module_init demo_api demo_world) = Inr demo_globals"
  by (simp add: module_init_def putenv_def bind_prog_def call_def return_prog_def Let_def
      demo_api_def demo_world_def demo_globals_def normalize_def new_axis_def demo_pixels)

text \<open>
  Claim C6. After the module-level division by \<^verbatim>\<open>np.float32(255)\<close> every element of the
  train and test image tensors is a finite float32 value in the interval from 0 to 1:
  the 8-bit pixel \<open>v\<close> becomes the float32 nearest to \<open>v / 255\<close> (ties to even), which
  is within \<open>2\<^sup>-\<^sup>2\<^sup>4\<close> of \<open>v / 255\<close>, is 0 for 0 and is 1 for 255.
\<close>

theorem images_normalized_into_unit_interval:
  "(module_init api w = (w', Inr g) \<longrightarrow>
      (\<forall>img \<in> set (train_images g) \<union> set (test_images g).
         \<forall>row \<in> set img. \<forall>px \<in> set row. \<forall>x \<in> set px. in_unit_interval x)) \<and>
   (\<exists>r. np_true_divide v 255 = Finite r \<and> 0 \<le> r \<and> r \<le> 1 \<and>
        \<bar>r - of_nat (unat v) / 255\<bar> \<le> 1 / 2 ^ 24) \<and>
   np_true_divide v 255 = f32_of_rat (of_nat (unat v) / 255) \<and>
   np_true_divide 0 255 = Finite 0 \<and>
   np_true_divide 255 255 = Finite 1"
proof (intro conjI impI ballI)
  fix img row px x
  assume init: "module_init api w = (w', Inr g)"
    and img: "img \<in> set (train_images g) \<union> set (test_images g)"
    and rest: "row \<in> set img" "px \<in> set row" "x \<in> set px"
  from init obtain tr te where "train_images g = normalize (new_axis tr)"
    and "test_images g = normalize (new_axis te)"
    by (rule module_init_Inr)
  with img have "img \<in> set (normalize (new_axis tr)) \<or> img \<in> set (normalize (new_axis te))"
    by simp
  then show "in_unit_interval x"
    using rest by (auto intro: normalize_unit)
next
  show "\<exists>r. np_true_divide v 255 = Finite r \<and> 0 \<le> r \<and> r \<le> 1 \<and>
        \<bar>r - of_nat (unat v) / 255\<bar> \<le> 1 / 2 ^ 24"
    by (rule normalize_pixel)
  show "np_true_divide v 255 = f32_of_rat (of_nat (unat v) / 255)"
    by (simp only: np_true_divide_def)
  show "np_true_divide 0 255 = Finite 0" "np_true_divide 255 255 = Finite 1"
    by (rule demo_pixels)+
qed

text \<open>
  On the demonstration libraries, whose dataset has one train image with the pixels 0
  and 255 and one test image with the pixel 128.
\<close>

theorem images_normalized_into_unit_interval_witness:
  "snd (module_init demo_api demo_world) = Inr demo_globals \<and>
   [[[Finite 0], [Finite 1]]] \<in> set (train_images demo_globals) \<union> set (test_images demo_globals) \<and>
   in_unit_interval (Finite 0) \<and> in_unit_interval (Finite 1) \<and>
   np_true_divide 128 255 = Finite (8421505 / 16777216) \<and>
   in_unit_interval (np_true_divide 128 255)"
proof -
  let ?w' = "fst (module_init demo_api demo_world)"
  have init: "module_init demo_api demo_world = (?w', Inr demo_globals)"
    using demo_module_init by (simp add: prod_eq_iff)
  have img: "[[[Finite 0], [Finite 1]]] \<in>
      set (train_images demo_globals) \<union> set (test_images demo_globals)"
    by (simp add: demo_globals_def)
  note inst = images_normalized_into_unit_interval [of demo_api demo_world ?w' demo_globals 128]
  from inst init img have "\<forall>row \<in> set [[[Finite 0], [Finite 1]]]. \<forall>px \<in> set row.
      \<forall>x \<in> set px. in_unit_interval x"
    by blast
  then have "in_unit_interval (Finite 0)" "in_unit_interval (Finite 1)"
    by simp_all
  moreover have "in_unit_interval (np_true_divide 128 255)"
  proof -
    from inst obtain r where "np_true_divide 128 255 = Finite r" "0 \<le> r" "r \<le> 1"
      by blast
    then show ?thesis by simp
  qed
  ultimately show ?thesis
    using demo_module_init img demo_pixels(3) by blast
qed

end
